theory Spec2Isabelle
  imports Main "HOL-Library.AList" "HOL-Library.Char_ord" "HOL-Library.List_Lexorder"
    "HOL-Library.Multiset"
begin

section \<open>Query data of the Cantabular client\<close>

text \<open>
  A Go slice is modelled as \<open>'a list option\<close>: \<open>None\<close> is the \<^verbatim>\<open>nil\<close> slice, which has
  length 0 like the empty slice but is written as \<^verbatim>\<open>null\<close> by \<^verbatim>\<open>encoding/json\<close>.
\<close>

type_synonym 'a slice = "'a list option"

definition len :: "'a slice \<Rightarrow> nat" where
  "len s = (case s of None \<Rightarrow> 0 | Some xs \<Rightarrow> length xs)"

definition elems :: "'a slice \<Rightarrow> 'a list" where
  "elems s = (case s of None \<Rightarrow> [] | Some xs \<Rightarrow> xs)"

record Filter =
  Codes :: "string slice"
  Variable :: string

record QueryData =
  Dataset :: string
  Text :: string
  Variables :: "string slice"
  Filters :: "Filter slice"

section \<open>Go errors\<close>

text \<open>
  A Go \<^verbatim>\<open>error\<close> value. \<^verbatim>\<open>errors.New\<close> gives an \<open>ErrorString\<close>;
  \<^verbatim>\<open>fmt.Errorf\<close> with the verb \<^verbatim>\<open>%w\<close> gives a \<open>WrapError\<close> (format and wrapped
  operand), with other verbs an \<open>FmtError\<close> (format and operands, which are only
  printed into the message). Formats are kept as the source writes them; messages are
  not rendered. \<open>SyntaxError\<close> and \<open>UnmarshalTypeError\<close> are the two failures of
  \<^verbatim>\<open>json.Unmarshal\<close> (the latter with the kind of JSON value that did not fit).
  \<open>DpError\<close> stands for the value of \<^verbatim>\<open>dperrors.New(err, statusCode, logData)\<close>
  (package errors of this repository is not among the sources): the three arguments,
  as passed. \<open>ErrInvalidZebedeeResponse\<close> is the struct of that name.
\<close>

datatype logval = LogString string | LogQueryData QueryData

type_synonym log_Data = "(string \<times> logval) list"

datatype go_error =
    ErrorString string
  | FmtError string "go_error list"
  | WrapError string go_error
  | SyntaxError
  | UnmarshalTypeError string
  | DpError go_error int log_Data
  | ErrInvalidZebedeeResponse int string

fun Unwrap :: "go_error \<Rightarrow> go_error option" where
  "Unwrap (WrapError f e) = Some e"
| "Unwrap _ = None"

section \<open>JSON as \<^verbatim>\<open>encoding/json\<close> reads it\<close>

text \<open>
  The syntax tree of a JSON text. A number literal without fraction and exponent is a
  \<open>JInt\<close>; any other number keeps its literal (\<open>JReal\<close>), because the only numeric
  target below is Go's \<^verbatim>\<open>int\<close>, which accepts integer literals only. Strings are
  unquoted (escapes resolved). An object keeps its members in the order of the text,
  duplicates included.
\<close>

datatype json =
    JNull
  | JBool bool
  | JInt int
  | JReal string
  | JString string
  | JArray "json list"
  | JObject "(string \<times> json) list"

text \<open>
  Reading is done in two passes over the bytes, both by structural recursion: \<open>lex\<close>
  cuts the text into tokens, with the states of the scanner of \<^verbatim>\<open>encoding/json\<close> for
  numbers and string escapes; \<open>parse_tokens\<close> is the scanner's push-down automaton
  (its \<^verbatim>\<open>parseState\<close> stack, limited to \<^verbatim>\<open>maxNestingDepth\<close>) building the tree.
  \<open>json_parse\<close> is \<open>None\<close> exactly on the texts that \<^verbatim>\<open>checkValid\<close> rejects.
  Bytes of a string literal outside escapes are copied as they are (the text is taken
  to be valid UTF-8).
\<close>

datatype token =
    TLBrace | TRBrace | TLBrack | TRBrack | TColon | TComma
  | TString string | TNumber string | TTrue | TFalse | TNull

definition byte :: "char \<Rightarrow> nat" where
  "byte c = of_char c"

definition is_space :: "char \<Rightarrow> bool" where
  "is_space c \<longleftrightarrow> c = CHR '' '' \<or> c = CHR 0x09 \<or> c = CHR 0x0D \<or> c = CHR 0x0A"

definition is_digit :: "char \<Rightarrow> bool" where
  "is_digit c \<longleftrightarrow> 48 \<le> byte c \<and> byte c \<le> 57"

definition is_digit19 :: "char \<Rightarrow> bool" where
  "is_digit19 c \<longleftrightarrow> 49 \<le> byte c \<and> byte c \<le> 57"

text \<open>
  The number states \<^verbatim>\<open>stateNeg\<close>, \<^verbatim>\<open>state0\<close>, \<^verbatim>\<open>state1\<close>, \<^verbatim>\<open>stateDot\<close>,
  \<^verbatim>\<open>stateDot0\<close>, \<^verbatim>\<open>stateE\<close>, \<^verbatim>\<open>stateESign\<close>, \<^verbatim>\<open>stateE0\<close> of the scanner. A
  number token is the longest run of number characters, and has to be accepted as a
  whole: after a number the scanner allows only space, a comma or a closing bracket.
\<close>

datatype numstate = NBegin | NNeg | N0 | N1 | NDot | NDot0 | NE | NESign | NE0

definition num_step :: "numstate \<Rightarrow> char \<Rightarrow> numstate option" where
  "num_step s c =
     (case s of
        NBegin \<Rightarrow> (if c = CHR ''-'' then Some NNeg else if c = CHR ''0'' then Some N0
                   else if is_digit19 c then Some N1 else None)
      | NNeg \<Rightarrow> (if c = CHR ''0'' then Some N0 else if is_digit19 c then Some N1 else None)
      | N0 \<Rightarrow> (if c = CHR ''.'' then Some NDot
               else if c = CHR ''e'' \<or> c = CHR ''E'' then Some NE else None)
      | N1 \<Rightarrow> (if is_digit c then Some N1 else if c = CHR ''.'' then Some NDot
               else if c = CHR ''e'' \<or> c = CHR ''E'' then Some NE else None)
      | NDot \<Rightarrow> (if is_digit c then Some NDot0 else None)
      | NDot0 \<Rightarrow> (if is_digit c then Some NDot0
                  else if c = CHR ''e'' \<or> c = CHR ''E'' then Some NE else None)
      | NE \<Rightarrow> (if c = CHR ''+'' \<or> c = CHR ''-'' then Some NESign
               else if is_digit c then Some NE0 else None)
      | NESign \<Rightarrow> (if is_digit c then Some NE0 else None)
      | NE0 \<Rightarrow> (if is_digit c then Some NE0 else None))"

fun number_ok :: "numstate \<Rightarrow> string \<Rightarrow> bool" where
  "number_ok s [] = (s = N0 \<or> s = N1 \<or> s = NDot0 \<or> s = NE0)"
| "number_ok s (c # cs) = (case num_step s c of None \<Rightarrow> False | Some s' \<Rightarrow> number_ok s' cs)"

definition is_numch :: "char \<Rightarrow> bool" where
  "is_numch c \<longleftrightarrow> is_digit c \<or> c = CHR ''-'' \<or> c = CHR ''+'' \<or> c = CHR ''.''
                  \<or> c = CHR ''e'' \<or> c = CHR ''E''"

definition digits_value :: "string \<Rightarrow> int" where
  "digits_value ds = foldl (\<lambda>n c. 10 * n + int (byte c - 48)) 0 ds"

definition number_value :: "string \<Rightarrow> json" where
  "number_value lit =
     (case lit of
        [] \<Rightarrow> JReal lit
      | c # cs \<Rightarrow>
          if c = CHR ''-'' then (if list_all is_digit cs then JInt (- digits_value cs) else JReal lit)
          else if list_all is_digit lit then JInt (digits_value lit) else JReal lit)"

definition hex_value :: "char \<Rightarrow> nat option" where
  "hex_value c =
     (if 48 \<le> byte c \<and> byte c \<le> 57 then Some (byte c - 48)
      else if 97 \<le> byte c \<and> byte c \<le> 102 then Some (byte c - 87)
      else if 65 \<le> byte c \<and> byte c \<le> 70 then Some (byte c - 55)
      else None)"

definition getu4 :: "string \<Rightarrow> nat option" where
  "getu4 s =
     (case s of
        b # u # h1 # h2 # h3 # h4 # _ \<Rightarrow>
          if b = CHR 0x5C \<and> u = CHR ''u'' then
            (case (hex_value h1, hex_value h2, hex_value h3, hex_value h4) of
               (Some a, Some b, Some c, Some d) \<Rightarrow> Some (((a * 16 + b) * 16 + c) * 16 + d)
             | _ \<Rightarrow> None)
          else None
      | _ \<Rightarrow> None)"

definition EncodeRune :: "nat \<Rightarrow> string" where
  "EncodeRune r =
     (if r < 0x80 then [char_of r]
      else if r < 0x800 then [char_of (0xC0 + r div 64), char_of (0x80 + r mod 64)]
      else if r < 0x10000 then
        [char_of (0xE0 + r div 4096), char_of (0x80 + (r div 64) mod 64), char_of (0x80 + r mod 64)]
      else
        [char_of (0xF0 + r div 262144), char_of (0x80 + (r div 4096) mod 64),
         char_of (0x80 + (r div 64) mod 64), char_of (0x80 + r mod 64)])"

text \<open>
  The escape \<^verbatim>\<open>\uXXXX\<close> at the head of \<open>s\<close>: the UTF-8 bytes it stands for and the
  number of input bytes it takes (6, or 12 for a surrogate pair). A surrogate without
  its partner becomes U+FFFD, as in \<^verbatim>\<open>unquote\<close>.
\<close>

definition unescape_u :: "string \<Rightarrow> (string \<times> nat) option" where
  "unescape_u s =
     (case getu4 s of
        None \<Rightarrow> None
      | Some r \<Rightarrow>
          if 0xD800 \<le> r \<and> r < 0xE000 then
            (case getu4 (drop 6 s) of
               Some r2 \<Rightarrow>
                 if r < 0xDC00 \<and> 0xDC00 \<le> r2 \<and> r2 < 0xE000
                 then Some (EncodeRune (0x10000 + (r - 0xD800) * 0x400 + (r2 - 0xDC00)), 12)
                 else Some (EncodeRune 0xFFFD, 6)
             | None \<Rightarrow> Some (EncodeRune 0xFFFD, 6))
          else Some (EncodeRune r, 6))"

definition simple_escape :: "char \<Rightarrow> char option" where
  "simple_escape e =
     (if e = CHR 0x22 \<or> e = CHR 0x5C \<or> e = CHR ''/'' then Some e
      else if e = CHR ''b'' then Some (CHR 0x08)
      else if e = CHR ''f'' then Some (CHR 0x0C)
      else if e = CHR ''n'' then Some (CHR 0x0A)
      else if e = CHR ''r'' then Some (CHR 0x0D)
      else if e = CHR ''t'' then Some (CHR 0x09)
      else None)"

definition emit :: "token \<Rightarrow> token list option \<Rightarrow> token list option" where
  "emit t r = map_option ((#) t) r"

function lex :: "string \<Rightarrow> token list option"
  and lex_string :: "string \<Rightarrow> string \<Rightarrow> token list option"
where
  "lex [] = Some []"
| "lex (c # cs) =
     (if is_space c then lex cs
      else if c = CHR ''{'' then emit TLBrace (lex cs)
      else if c = CHR ''}'' then emit TRBrace (lex cs)
      else if c = CHR ''['' then emit TLBrack (lex cs)
      else if c = CHR '']'' then emit TRBrack (lex cs)
      else if c = CHR '':'' then emit TColon (lex cs)
      else if c = CHR '','' then emit TComma (lex cs)
      else if c = CHR 0x22 then lex_string cs []
      else if c = CHR ''-'' \<or> is_digit c then
        (if number_ok NBegin (c # takeWhile is_numch cs)
         then emit (TNumber (c # takeWhile is_numch cs)) (lex (dropWhile is_numch cs))
         else None)
      else if c = CHR ''t'' then
        (if take 3 cs = ''rue'' then emit TTrue (lex (drop 3 cs)) else None)
      else if c = CHR ''f'' then
        (if take 4 cs = ''alse'' then emit TFalse (lex (drop 4 cs)) else None)
      else if c = CHR ''n'' then
        (if take 3 cs = ''ull'' then emit TNull (lex (drop 3 cs)) else None)
      else None)"
| "lex_string [] acc = None"
| "lex_string (c # cs) acc =
     (if c = CHR 0x22 then emit (TString (rev acc)) (lex cs)
      else if c = CHR 0x5C then
        (case cs of
           [] \<Rightarrow> None
         | e # cs' \<Rightarrow>
             if e = CHR ''u'' then
               (case unescape_u (c # cs) of
                  None \<Rightarrow> None
                | Some (bs, n) \<Rightarrow> lex_string (drop (n - 1) cs) (rev bs @ acc))
             else
               (case simple_escape e of
                  None \<Rightarrow> None
                | Some b \<Rightarrow> lex_string cs' (b # acc)))
      else if byte c < 0x20 then None
      else lex_string cs (c # acc))"
  by pat_completeness auto
termination
  by (relation "measure (\<lambda>x. case x of Inl s \<Rightarrow> length s | Inr (s, _) \<Rightarrow> length s)")
     (auto simp: less_Suc_eq_le length_dropWhile_le)

text \<open>
  The parser: a stack of the arrays and objects that are open (elements and members read
  so far, newest first; for an object also the key whose value is awaited), and a state
  saying what may come next.
\<close>

datatype frame = FArray "json list" | FObject "(string \<times> json) list" "string option"

datatype pstate = PValue | PValueOrEnd | PKeyOrEnd | PKey | PColon | PCommaOrEnd | PDone json

definition maxNestingDepth :: nat where
  "maxNestingDepth = 10000"

fun push_value :: "json \<Rightarrow> frame list \<Rightarrow> (pstate \<times> frame list) option" where
  "push_value v [] = Some (PDone v, [])"
| "push_value v (FArray acc # st) = Some (PCommaOrEnd, FArray (v # acc) # st)"
| "push_value v (FObject acc (Some k) # st) = Some (PCommaOrEnd, FObject ((k, v) # acc) None # st)"
| "push_value v (FObject acc None # st) = None"

fun begin_value :: "frame list \<Rightarrow> token \<Rightarrow> (pstate \<times> frame list) option" where
  "begin_value st TLBrack =
     (if length st < maxNestingDepth then Some (PValueOrEnd, FArray [] # st) else None)"
| "begin_value st TLBrace =
     (if length st < maxNestingDepth then Some (PKeyOrEnd, FObject [] None # st) else None)"
| "begin_value st (TString s) = push_value (JString s) st"
| "begin_value st (TNumber lit) = push_value (number_value lit) st"
| "begin_value st TTrue = push_value (JBool True) st"
| "begin_value st TFalse = push_value (JBool False) st"
| "begin_value st TNull = push_value JNull st"
| "begin_value st _ = None"

fun end_array :: "frame list \<Rightarrow> (pstate \<times> frame list) option" where
  "end_array (FArray acc # st) = push_value (JArray (rev acc)) st"
| "end_array _ = None"

fun end_object :: "frame list \<Rightarrow> (pstate \<times> frame list) option" where
  "end_object (FObject acc None # st) = push_value (JObject (rev acc)) st"
| "end_object _ = None"

fun begin_key :: "frame list \<Rightarrow> string \<Rightarrow> (pstate \<times> frame list) option" where
  "begin_key (FObject acc None # st) k = Some (PColon, FObject acc (Some k) # st)"
| "begin_key _ k = None"

fun after_comma :: "frame list \<Rightarrow> (pstate \<times> frame list) option" where
  "after_comma (FArray acc # st) = Some (PValue, FArray acc # st)"
| "after_comma (FObject acc None # st) = Some (PKey, FObject acc None # st)"
| "after_comma _ = None"

fun pstep :: "pstate \<Rightarrow> frame list \<Rightarrow> token \<Rightarrow> (pstate \<times> frame list) option" where
  "pstep PValue st t = begin_value st t"
| "pstep PValueOrEnd st t = (if t = TRBrack then end_array st else begin_value st t)"
| "pstep PKeyOrEnd st t =
     (case t of TRBrace \<Rightarrow> end_object st | TString k \<Rightarrow> begin_key st k | _ \<Rightarrow> None)"
| "pstep PKey st t = (case t of TString k \<Rightarrow> begin_key st k | _ \<Rightarrow> None)"
| "pstep PColon st t = (if t = TColon then Some (PValue, st) else None)"
| "pstep PCommaOrEnd st t =
     (case t of TComma \<Rightarrow> after_comma st | TRBrack \<Rightarrow> end_array st
      | TRBrace \<Rightarrow> end_object st | _ \<Rightarrow> None)"
| "pstep (PDone v) st t = None"

fun parse_tokens :: "pstate \<Rightarrow> frame list \<Rightarrow> token list \<Rightarrow> json option" where
  "parse_tokens s st [] = (case s of PDone v \<Rightarrow> Some v | _ \<Rightarrow> None)"
| "parse_tokens s st (t # ts) =
     (case pstep s st t of None \<Rightarrow> None | Some (s', st') \<Rightarrow> parse_tokens s' st' ts)"

definition json_parse :: "string \<Rightarrow> json option" where
  "json_parse b = (case lex b of None \<Rightarrow> None | Some ts \<Rightarrow> parse_tokens PValue [] ts)"

subsection \<open>Decoding into Go values\<close>

text \<open>
  \<^verbatim>\<open>json.Unmarshal\<close> is driven by the Go type of its target. The types that occur are
  strings, \<^verbatim>\<open>int\<close>, slices and structs; a struct type lists its fields with Go name,
  JSON key (the \<^verbatim>\<open>json:"..."\<close> tag) and type. The element type of a slice is given by
  name and looked up in a table of declarations, since Go types may refer to
  themselves through slices (\<^verbatim>\<open>Node\<close>, \<^verbatim>\<open>Categories\<close>, \<^verbatim>\<open>[]Edge\<close>, \<^verbatim>\<open>Node\<close>).
  A Go value is a \<open>goval\<close>; a struct value lists its fields by Go name, in the order of
  the declaration.
\<close>

datatype gotype = GoString | GoInt | GoSlice string | GoStruct "field list"
and field = Field (field_name: string) (json_key: string) (field_type: gotype)

type_synonym decls = "string \<Rightarrow> gotype"

datatype goval =
    VString string
  | VInt int
  | VSlice "goval slice"
  | VStruct "(string \<times> goval) list"

primrec zero :: "gotype \<Rightarrow> goval"
  and zero_field :: "field \<Rightarrow> string \<times> goval"
where
  "zero GoString = VString ''''"
| "zero GoInt = VInt 0"
| "zero (GoSlice n) = VSlice None"
| "zero (GoStruct fs) = VStruct (map zero_field fs)"
| "zero_field (Field n k t) = (n, zero t)"

text \<open>
  A key of the text selects the field whose JSON key is equal to it, and otherwise the
  first field whose key is equal to it under case folding. For the ASCII keys used
  here the folding maps lower case to upper case and the two non-ASCII letters that
  fold to ASCII letters, U+017F and U+212A (in UTF-8), to \<open>S\<close> and \<open>K\<close>.
\<close>

fun foldName :: "string \<Rightarrow> string" where
  "foldName [] = []"
| "foldName (c # cs) =
     (if 97 \<le> byte c \<and> byte c \<le> 122 then char_of (byte c - 32) # foldName cs
      else if take 2 (c # cs) = [CHR 0xC5, CHR 0xBF] then CHR ''S'' # foldName (drop 1 cs)
      else if take 3 (c # cs) = [CHR 0xE2, CHR 0x84, CHR 0xAA] then CHR ''K'' # foldName (drop 2 cs)
      else c # foldName cs)"

definition find_field :: "field list \<Rightarrow> string \<Rightarrow> field option" where
  "find_field fs k =
     (case find (\<lambda>f. json_key f = k) fs of
        Some f \<Rightarrow> Some f
      | None \<Rightarrow> find (\<lambda>f. foldName (json_key f) = foldName k) fs)"

definition fields_of :: "goval \<Rightarrow> (string \<times> goval) list" where
  "fields_of v = (case v of VStruct fvs \<Rightarrow> fvs | _ \<Rightarrow> [])"

definition get_field :: "(string \<times> goval) list \<Rightarrow> field \<Rightarrow> goval" where
  "get_field fvs f = (case map_of fvs (field_name f) of Some v \<Rightarrow> v | None \<Rightarrow> zero (field_type f))"

fun set_field :: "(string \<times> goval) list \<Rightarrow> string \<Rightarrow> goval \<Rightarrow> (string \<times> goval) list" where
  "set_field [] n v = [(n, v)]"
| "set_field ((m, w) # fvs) n v = (if m = n then (n, v) # fvs else (m, w) # set_field fvs n v)"

text \<open>\<^verbatim>\<open>saveError\<close>: the earliest error is the one reported.\<close>

definition first_error :: "go_error option \<Rightarrow> go_error option \<Rightarrow> go_error option" where
  "first_error e1 e2 = (case e1 of Some e \<Rightarrow> Some e | None \<Rightarrow> e2)"

text \<open>Go's \<^verbatim>\<open>int\<close> is taken to be 64 bits wide.\<close>

definition int_fits :: "int \<Rightarrow> bool" where
  "int_fits n \<longleftrightarrow> - (2 ^ 63) \<le> n \<and> n < 2 ^ 63"

text \<open>
  \<open>decode D ty j cur\<close> stores the JSON value \<open>j\<close> into a target of type \<open>ty\<close> that
  currently holds \<open>cur\<close>, and gives the new value of the target with the error saved
  so far. As the package documents: \<^verbatim>\<open>null\<close> leaves strings, ints and structs
  untouched and makes a slice \<^verbatim>\<open>nil\<close>; a value that does not fit the target is skipped
  with an \<^verbatim>\<open>UnmarshalTypeError\<close> and decoding goes on; an object is stored member by
  member into the struct, keys that select no field being ignored and fields that no
  key selects keeping their value; an array resets the slice and stores each element
  into a fresh element.
\<close>

function decode :: "decls \<Rightarrow> gotype \<Rightarrow> json \<Rightarrow> goval \<Rightarrow> goval \<times> go_error option"
  and decode_members :: "decls \<Rightarrow> field list \<Rightarrow> (string \<times> json) list
         \<Rightarrow> (string \<times> goval) list \<Rightarrow> (string \<times> goval) list \<times> go_error option"
  and decode_elems :: "decls \<Rightarrow> gotype \<Rightarrow> json list \<Rightarrow> goval list \<times> go_error option"
where
  "decode D ty JNull cur = (case ty of GoSlice n \<Rightarrow> (VSlice None, None) | _ \<Rightarrow> (cur, None))"
| "decode D ty (JBool b) cur = (cur, Some (UnmarshalTypeError ''bool''))"
| "decode D ty (JString s) cur =
     (case ty of GoString \<Rightarrow> (VString s, None) | _ \<Rightarrow> (cur, Some (UnmarshalTypeError ''string'')))"
| "decode D ty (JInt n) cur =
     (case ty of
        GoInt \<Rightarrow> (if int_fits n then (VInt n, None) else (cur, Some (UnmarshalTypeError ''number'')))
      | _ \<Rightarrow> (cur, Some (UnmarshalTypeError ''number'')))"
| "decode D ty (JReal l) cur = (cur, Some (UnmarshalTypeError ''number''))"
| "decode D ty (JArray js) cur =
     (case ty of
        GoSlice n \<Rightarrow> (case decode_elems D (D n) js of (vs, e) \<Rightarrow> (VSlice (Some vs), e))
      | _ \<Rightarrow> (cur, Some (UnmarshalTypeError ''array'')))"
| "decode D ty (JObject ms) cur =
     (case ty of
        GoStruct fs \<Rightarrow> (case decode_members D fs ms (fields_of cur) of (fvs, e) \<Rightarrow> (VStruct fvs, e))
      | _ \<Rightarrow> (cur, Some (UnmarshalTypeError ''object'')))"
| "decode_members D fs [] fvs = (fvs, None)"
| "decode_members D fs (m # ms) fvs =
     (case find_field fs (fst m) of
        None \<Rightarrow> decode_members D fs ms fvs
      | Some f \<Rightarrow>
          (case decode D (field_type f) (snd m) (get_field fvs f) of
             (v, e1) \<Rightarrow>
               (case decode_members D fs ms (set_field fvs (field_name f) v) of
                  (fvs', e2) \<Rightarrow> (fvs', first_error e1 e2))))"
| "decode_elems D ty [] = ([], None)"
| "decode_elems D ty (j # js) =
     (case decode D ty j (zero ty) of
        (v, e1) \<Rightarrow> (case decode_elems D ty js of (vs, e2) \<Rightarrow> (v # vs, first_error e1 e2)))"
  by pat_completeness auto
termination
  by (relation "measure (\<lambda>x. case x of
         Inl (D, ty, j, cur) \<Rightarrow> size j
       | Inr (Inl (D, fs, ms, fvs)) \<Rightarrow> size_list (size_prod (\<lambda>_. 0) size) ms
       | Inr (Inr (D, ty, js)) \<Rightarrow> size_list size js)")
     (auto simp: less_Suc_eq_le)

text \<open>
  \<^verbatim>\<open>json.Unmarshal(b, &v)\<close> for a decoder \<open>dec\<close> of the target's type: a text that is
  not valid JSON leaves the target as it is.
\<close>

definition json_Unmarshal ::
  "(json \<Rightarrow> 'v \<Rightarrow> 'v \<times> go_error option) \<Rightarrow> string \<Rightarrow> 'v \<Rightarrow> 'v \<times> go_error option" where
  "json_Unmarshal dec b v =
     (case json_parse b of None \<Rightarrow> (v, Some SyntaxError) | Some j \<Rightarrow> dec j v)"

text \<open>
  The shape of a JSON value that fits a Go type: every value is \<^verbatim>\<open>null\<close> or of the
  kind of its target, for the members of an object that select a field and for the
  elements of an array. Nothing is asked of members that select no field, and no member
  has to be there.
\<close>

function fits :: "decls \<Rightarrow> gotype \<Rightarrow> json \<Rightarrow> bool"
  and fits_members :: "decls \<Rightarrow> field list \<Rightarrow> (string \<times> json) list \<Rightarrow> bool"
  and fits_elems :: "decls \<Rightarrow> gotype \<Rightarrow> json list \<Rightarrow> bool"
where
  "fits D ty JNull = True"
| "fits D ty (JBool b) = False"
| "fits D ty (JString s) = (ty = GoString)"
| "fits D ty (JInt n) = (ty = GoInt \<and> int_fits n)"
| "fits D ty (JReal l) = False"
| "fits D ty (JArray js) = (case ty of GoSlice n \<Rightarrow> fits_elems D (D n) js | _ \<Rightarrow> False)"
| "fits D ty (JObject ms) = (case ty of GoStruct fs \<Rightarrow> fits_members D fs ms | _ \<Rightarrow> False)"
| "fits_members D fs [] = True"
| "fits_members D fs (m # ms) =
     ((case find_field fs (fst m) of None \<Rightarrow> True | Some f \<Rightarrow> fits D (field_type f) (snd m))
      \<and> fits_members D fs ms)"
| "fits_elems D ty [] = True"
| "fits_elems D ty (j # js) = (fits D ty j \<and> fits_elems D ty js)"
  by pat_completeness auto
termination
  by (relation "measure (\<lambda>x. case x of
         Inl (D, ty, j) \<Rightarrow> size j
       | Inr (Inl (D, fs, ms)) \<Rightarrow> size_list (size_prod (\<lambda>_. 0) size) ms
       | Inr (Inr (D, ty, js)) \<Rightarrow> size_list size js)")
     (auto simp: less_Suc_eq_le)

subsection \<open>Encoding\<close>

text \<open>
  What \<^verbatim>\<open>json.Encoder.Encode\<close> writes for the values that \<^verbatim>\<open>Encode\<close> passes to it,
  as a syntax tree: a string as a JSON string, a slice as an array or, when it is
  \<^verbatim>\<open>nil\<close>, as \<^verbatim>\<open>null\<close>, a \<^verbatim>\<open>Filter\<close> as an object with its two tagged fields in the
  order of the declaration, and a \<^verbatim>\<open>map[string]interface{}\<close> as an object with its keys
  sorted. None of these can fail to encode, so the encoder always gives a text.
\<close>

definition marshal_strings :: "string slice \<Rightarrow> json" where
  "marshal_strings s = (case s of None \<Rightarrow> JNull | Some xs \<Rightarrow> JArray (map JString xs))"

definition marshal_Filter :: "Filter \<Rightarrow> json" where
  "marshal_Filter f = JObject [(''codes'', marshal_strings (Codes f)), (''variable'', JString (Variable f))]"

definition marshal_Filters :: "Filter slice \<Rightarrow> json" where
  "marshal_Filters s = (case s of None \<Rightarrow> JNull | Some fs \<Rightarrow> JArray (map marshal_Filter fs))"

definition marshal_map :: "(string \<times> json) list \<Rightarrow> json" where
  "marshal_map m = JObject (sort_key fst m)"

definition Encoder_Encode :: "(string \<times> json) list \<Rightarrow> go_error + json" where
  "Encoder_Encode m = Inr (marshal_map m)"

section \<open>Package cantabular: GraphQL queries\<close>

text \<open>
  \<^verbatim>\<open>QueryData.Encode\<close>. The Go map \<^verbatim>\<open>vars\<close> is an association list, the assignment
  \<^verbatim>\<open>vars["filters"] = data.Filters\<close> an update of it. The result is the tree of the text
  written to the buffer.
\<close>

definition Encode :: "QueryData \<Rightarrow> string \<Rightarrow> go_error + json" where
  "Encode data query =
     (let vars = [(''dataset'', JString (Dataset data)),
                  (''variables'', marshal_strings (Variables data)),
                  (''text'', JString (Text data))];
          vars = (if len (Filters data) > 0
                  then AList.update ''filters'' (marshal_Filters (Filters data)) vars
                  else vars)
      in case Encoder_Encode [(''query'', JString query), (''variables'', marshal_map vars)] of
           Inl err \<Rightarrow> Inl (WrapError ''failed to encode GraphQL query: %w'' err)
         | Inr b \<Rightarrow> Inr b)"

subsection \<open>HTTP responses\<close>

text \<open>
  A response body is an \<^verbatim>\<open>io.ReadCloser\<close>: \<open>content\<close> and \<open>read_err\<close> are what reading it
  to the end gives (the bytes read, and the error that stopped the reading, if any),
  \<open>after_close\<close> is what the same gives once \<^verbatim>\<open>Close\<close> has been called (a body of
  \<^verbatim>\<open>net/http\<close> then fails with \<^verbatim>\<open>ErrBodyReadAfterClose\<close>; a \<^verbatim>\<open>NopCloser\<close> of a test
  still reads its data), and \<open>closed\<close> records the call of \<^verbatim>\<open>Close\<close>. No function below
  reads a body twice.
\<close>

record http_body =
  content :: string
  read_err :: "go_error option"
  after_close :: "string \<times> go_error option"
  closed :: bool

type_synonym http_Header = "(string \<times> string list) list"

record http_response =
  StatusCode :: int
  Body :: http_body
  RespHeader :: http_Header

definition ioutil_ReadAll :: "http_body \<Rightarrow> string \<times> go_error option" where
  "ioutil_ReadAll b = (if closed b then after_close b else (content b, read_err b))"

definition close_body :: "http_response \<Rightarrow> http_response" where
  "close_body res = res\<lparr>Body := (Body res)\<lparr>closed := True\<rparr>\<rparr>"

definition StatusOK :: int where
  "StatusOK = 200"

definition StatusInternalServerError :: int where
  "StatusInternalServerError = 500"

text \<open>
  The client: the two hosts and its transport, \<^verbatim>\<open>httpGet\<close> and \<^verbatim>\<open>httpPost\<close>, which
  give an error or a response. The context is not modelled.
\<close>

record Client =
  host :: string
  extApiHost :: string
  httpGet :: "string \<Rightarrow> go_error + http_response"
  httpPost :: "string \<Rightarrow> string \<Rightarrow> json \<Rightarrow> go_error + http_response"

text \<open>
  Modelled from the spec: the helper \<^verbatim>\<open>closeResponseBody(ctx, res)\<close> of package
  cantabular is not among the sources. It releases the body of the response (spec 4.2:
  ``the response body is released before returning''); as \<^verbatim>\<open>queryUnmarshal\<close> defers it
  before testing the error, it accepts a \<^verbatim>\<open>nil\<close> response, like the helper of the same
  name in package stream accepts a \<^verbatim>\<open>nil\<close> body.
\<close>

definition closeResponseBody :: "http_response option \<Rightarrow> http_response option" where
  "closeResponseBody res = map_option close_body res"

text \<open>
  Modelled from the spec: the method \<^verbatim>\<open>errorResponse\<close> is not among the sources.
  Spec 4.2: it ``reads whatever error body is present'' and signals an error ``carrying
  the status code and best-effort error payload''. The payload is the text read from
  the body, or the error of the read when the body cannot be read; the log data are
  those of the call site.
\<close>

definition errorResponse :: "log_Data \<Rightarrow> http_response \<Rightarrow> go_error" where
  "errorResponse logData res =
     DpError (case ioutil_ReadAll (Body res) of
                (b, None) \<Rightarrow> ErrorString b
              | (b, Some e) \<Rightarrow> e)
             (StatusCode res) logData"

text \<open>
  Results are the tuple of Go return values (\<open>None\<close> is \<^verbatim>\<open>nil\<close>), paired with the
  response object as the call leaves it (\<open>None\<close> if the transport gave no response),
  which shows whether its body has been closed.
\<close>

definition postQuery ::
  "Client \<Rightarrow> string \<Rightarrow> QueryData
     \<Rightarrow> (http_response option \<times> go_error option) \<times> http_response option" where
  "postQuery c graphQLQuery data =
     (let url = extApiHost c @ ''/graphql'';
          logData = [(''url'', LogString url), (''query_data'', LogQueryData data)]
      in case Encode data graphQLQuery of
           Inl err \<Rightarrow> ((None, Some (DpError err StatusInternalServerError logData)), None)
         | Inr b \<Rightarrow>
             (case httpPost c url ''application/json'' b of
                Inl err \<Rightarrow>
                  ((None, Some (DpError (WrapError ''failed to make GraphQL query: %w'' err)
                                  StatusInternalServerError logData)), None)
              | Inr res \<Rightarrow>
                  if StatusCode res \<noteq> StatusOK then
                    (case closeResponseBody (Some res) of
                       Some res' \<Rightarrow>
                         ((None, Some (errorResponse [(''url'', LogString url)] res')), Some res')
                     | None \<Rightarrow> ((None, Some (errorResponse [(''url'', LogString url)] res)), Some res))
                  else ((Some res, None), Some res)))"

text \<open>
  A call either returns or panics; \<^verbatim>\<open>queryUnmarshal\<close> would panic on \<^verbatim>\<open>res.Body\<close> if
  \<^verbatim>\<open>postQuery\<close> gave neither an error nor a response.
\<close>

datatype 'a outcome = Return 'a | Panic

text \<open>
  \<^verbatim>\<open>queryUnmarshal\<close>. The target \<^verbatim>\<open>v interface{}\<close> is a value \<open>v\<close> with the decoder
  \<open>dec\<close> of its type; the result is the returned error and the value of the target
  afterwards. The deferred \<^verbatim>\<open>closeResponseBody(ctx, res)\<close> closes the response that
  \<^verbatim>\<open>postQuery\<close> returned, if any, when the function is left.
\<close>

definition queryUnmarshal ::
  "Client \<Rightarrow> string \<Rightarrow> QueryData \<Rightarrow> (json \<Rightarrow> 'v \<Rightarrow> 'v \<times> go_error option) \<Rightarrow> 'v
     \<Rightarrow> (go_error option \<times> 'v) outcome \<times> http_response option" where
  "queryUnmarshal c graphQLQuery data dec v =
     (let url = extApiHost c @ ''/graphql'' in
      case postQuery c graphQLQuery data of
        ((res, Some err), st) \<Rightarrow>
          (Return (Some err, v), (case res of None \<Rightarrow> st | Some r \<Rightarrow> closeResponseBody res))
      | ((None, None), st) \<Rightarrow> (Panic, st)
      | ((Some r, None), st) \<Rightarrow>
          (case ioutil_ReadAll (Body r) of
             (b, Some err) \<Rightarrow>
               (Return (Some (DpError (FmtError ''failed to read response body: %s'' [err])
                                (StatusCode r) [(''url'', LogString url)]), v),
                closeResponseBody (Some r))
           | (b, None) \<Rightarrow>
               (case json_Unmarshal dec b v of
                  (v', Some err) \<Rightarrow>
                    (Return (Some (DpError (FmtError ''failed to unmarshal response body: %s'' [err])
                                     StatusInternalServerError
                                     [(''url'', LogString url), (''response_body'', LogString b)]), v'),
                     closeResponseBody (Some r))
                | (v', None) \<Rightarrow> (Return (None, v'), closeResponseBody (Some r)))))"

subsection \<open>The graph types of \<^verbatim>\<open>cantabular/gql/data.go\<close>\<close>

definition Categories_t :: gotype where
  "Categories_t = GoStruct
     [Field ''TotalCount'' ''totalCount'' GoInt,
      Field ''Edges'' ''edges'' (GoSlice ''Edge'')]"

definition Variable_t :: gotype where
  "Variable_t = GoStruct [Field ''Name'' ''name'' GoString]"

definition Node_t :: gotype where
  "Node_t = GoStruct
     [Field ''Name'' ''name'' GoString,
      Field ''Code'' ''code'' GoString,
      Field ''Label'' ''label'' GoString,
      Field ''Categories'' ''categories'' Categories_t,
      Field ''MapFrom'' ''mapFrom'' (GoSlice ''Variables''),
      Field ''FilterOnly'' ''filterOnly'' GoString,
      Field ''Variable'' ''variable'' Variable_t]"

definition Edge_t :: gotype where
  "Edge_t = GoStruct [Field ''Node'' ''node'' Node_t]"

definition Search_t :: gotype where
  "Search_t = GoStruct [Field ''Edges'' ''edges'' (GoSlice ''Edge'')]"

definition Variables_t :: gotype where
  "Variables_t = GoStruct
     [Field ''Edges'' ''edges'' (GoSlice ''Edge''),
      Field ''Search'' ''search'' Search_t,
      Field ''CategorySearch'' ''categorySearch'' Search_t]"

definition RuleBase_t :: gotype where
  "RuleBase_t = GoStruct
     [Field ''IsSourceOf'' ''isSourceOf'' Variables_t,
      Field ''Name'' ''name'' GoString]"

definition DatasetVariables_t :: gotype where
  "DatasetVariables_t = GoStruct [Field ''Variables'' ''variables'' Variables_t]"

definition DatasetRuleBase_t :: gotype where
  "DatasetRuleBase_t = GoStruct [Field ''RuleBase'' ''ruleBase'' RuleBase_t]"

text \<open>The two types that are element types of slices, by name.\<close>

definition gql :: decls where
  "gql n = (if n = ''Edge'' then Edge_t else if n = ''Variables'' then Variables_t else GoStruct [])"

definition gql_types :: "gotype list" where
  "gql_types =
     [DatasetRuleBase_t, DatasetVariables_t, RuleBase_t, Variables_t, Search_t,
      Edge_t, Node_t, Categories_t, Variable_t]"

subsection \<open>The codebook\<close>

text \<open>
  \<^verbatim>\<open>GetCodebook\<close>. The declarations of \<^verbatim>\<open>GetCodebookRequest\<close> and
  \<^verbatim>\<open>GetCodebookResponse\<close> are not among the sources: the request has the three fields
  the function reads (\<^verbatim>\<open>Categories\<close> is printed with \<^verbatim>\<open>%v\<close>, as a boolean), and the
  response is any type \<open>'r\<close> with its decoder \<open>dec\<close> and zero value \<open>z\<close>.
\<close>

record GetCodebookRequest =
  DatasetName :: string
  ReqVariables :: "string slice"
  Categories :: bool

definition codebook_url :: "Client \<Rightarrow> GetCodebookRequest \<Rightarrow> string" where
  "codebook_url c req =
     (let vars = concat (map (\<lambda>v. ''&v='' @ v) (elems (ReqVariables req)))
      in host c @ ''/v8/codebook/'' @ DatasetName req @ ''?cats=''
           @ (if Categories req then ''true'' else ''false'') @ vars)"

definition GetCodebook ::
  "Client \<Rightarrow> GetCodebookRequest \<Rightarrow> (json \<Rightarrow> 'r \<Rightarrow> 'r \<times> go_error option) \<Rightarrow> 'r
     \<Rightarrow> ('r option \<times> go_error option) \<times> http_response option" where
  "GetCodebook c req dec z =
     (let url = codebook_url c req
      in case httpGet c url of
           Inl err \<Rightarrow>
             ((None, Some (DpError (FmtError ''failed to get response from Cantabular API: %s'' [err])
                             StatusInternalServerError [])), None)
         | Inr res \<Rightarrow>
             if StatusCode res \<noteq> StatusOK then
               ((None, Some (errorResponse [] res)), Some (close_body res))
             else
               (case ioutil_ReadAll (Body res) of
                  (b, Some err) \<Rightarrow>
                    ((None, Some (DpError (FmtError ''failed to read response body: %s'' [err])
                                    (StatusCode res) [(''response_body'', LogString b)])),
                     Some (close_body res))
                | (b, None) \<Rightarrow>
                    (let b = (if length b = 0 then ''[response body empty]'' else b) in
                     case json_Unmarshal dec b z of
                       (resp, Some err) \<Rightarrow>
                         ((None, Some (DpError (FmtError ''failed to unmarshal response body: %s'' [err])
                                         StatusInternalServerError
                                         [(''response_body'', LogString b)])),
                          Some (close_body res))
                     | (resp, None) \<Rightarrow> ((Some resp, None), Some (close_body res)))))"

section \<open>Requests, contexts and the libraries around them\<close>

text \<open>
  A \<^verbatim>\<open>context.Context\<close> is the list of the values stored in it, newest first; a value
  is a string or something else (never \<^verbatim>\<open>nil\<close>). A request has its context, method,
  URL, the path of the parsed URL, and headers.
\<close>

datatype ctx_value = CtxString string | CtxOther

type_synonym go_context = "(string \<times> ctx_value) list"

definition WithValue :: "go_context \<Rightarrow> string \<Rightarrow> ctx_value \<Rightarrow> go_context" where
  "WithValue ctx k v = (k, v) # ctx"

record http_request =
  Ctx :: go_context
  Method :: string
  URL :: string
  URL_Path :: string
  Header :: http_Header

text \<open>
  What the functions below use of packages outside this repository is a parameter
  \<open>E\<close>: the parsing of a URL (its path, or an error), \<^verbatim>\<open>url.PathEscape\<close>, the
  canonical form of a header key, \<^verbatim>\<open>common.AddFlorenceHeader\<close>, the default client
  \<^verbatim>\<open>rchttp.NewClient()\<close>, the header and context keys of \<^verbatim>\<open>go-ns/common\<close>, and the
  declaration of \<^verbatim>\<open>common.IdentityResponse\<close> (its field \<^verbatim>\<open>Identifier\<close> is read).
\<close>

record env =
  url_Parse :: "string \<Rightarrow> go_error + string"
  PathEscape :: "string \<Rightarrow> string"
  CanonicalHeaderKey :: "string \<Rightarrow> string"
  AddFlorenceHeader :: "http_request \<Rightarrow> string \<Rightarrow> http_request"
  rchttp_NewClient :: "go_context \<Rightarrow> http_request \<Rightarrow> go_error + http_response"
  FlorenceHeaderKey :: string
  AuthHeaderKey :: string
  UserHeaderKey :: string
  UserIdentityKey :: string
  CallerIdentityKey :: string
  CollectionIDHeaderKey :: string
  LocaleHeaderKey :: string
  IdentityResponse_t :: gotype
  common_decls :: decls

definition http_NewRequest :: "env \<Rightarrow> string \<Rightarrow> string \<Rightarrow> go_error + http_request" where
  "http_NewRequest E m u =
     (case url_Parse E u of
        Inl err \<Rightarrow> Inl err
      | Inr p \<Rightarrow> Inr \<lparr>Ctx = [], Method = m, URL = u, URL_Path = p, Header = []\<rparr>)"

definition Header_Get :: "env \<Rightarrow> http_Header \<Rightarrow> string \<Rightarrow> string" where
  "Header_Get E h k =
     (case map_of h (CanonicalHeaderKey E k) of Some (v # vs) \<Rightarrow> v | _ \<Rightarrow> '''')"

definition Header_Set :: "env \<Rightarrow> http_Header \<Rightarrow> string \<Rightarrow> string \<Rightarrow> http_Header" where
  "Header_Set E h k v = AList.update (CanonicalHeaderKey E k) [v] h"

text \<open>Reading fields of a Go value: \<^verbatim>\<open>v.n\<close>, the elements of a slice, a string.\<close>

definition sel :: "string \<Rightarrow> goval \<Rightarrow> goval" where
  "sel n v = (case map_of (fields_of v) n of Some x \<Rightarrow> x | None \<Rightarrow> VStruct [])"

definition slice_of :: "goval \<Rightarrow> goval slice" where
  "slice_of v = (case v of VSlice s \<Rightarrow> s | _ \<Rightarrow> None)"

definition string_of :: "goval \<Rightarrow> string" where
  "string_of v = (case v of VString s \<Rightarrow> s | _ \<Rightarrow> '''')"

definition assign :: "goval \<Rightarrow> string \<Rightarrow> goval \<Rightarrow> goval" where
  "assign s n v = VStruct (set_field (fields_of s) n v)"

section \<open>Package zebedee\<close>

text \<open>
  The client: its transport \<^verbatim>\<open>cli\<close> (the method \<^verbatim>\<open>Do\<close>) and the base URL. The
  declarations of \<^verbatim>\<open>DatasetLandingPage\<close>, \<^verbatim>\<open>Related\<close> and \<^verbatim>\<open>PageTitle\<close> are not
  among the sources; they are parameters \<open>T\<close>, of which the functions use the fields
  they name (\<^verbatim>\<open>RelatedDatasets\<close>, \<^verbatim>\<open>RelatedDocuments\<close>, \<^verbatim>\<open>RelatedMethodology\<close>,
  \<^verbatim>\<open>RelatedMethodologyArticle\<close>; \<^verbatim>\<open>URI\<close> and \<^verbatim>\<open>Title\<close>).
\<close>

record zebedee_Client =
  cli :: "go_context \<Rightarrow> http_request \<Rightarrow> go_error + http_response"
  url :: string

record zebedee_types =
  zebedee_decls :: decls
  DatasetLandingPage_t :: gotype
  PageTitle_t :: gotype

definition createRequestURL :: "env \<Rightarrow> go_context \<Rightarrow> string \<Rightarrow> string \<Rightarrow> string" where
  "createRequestURL E ctx path query =
     (let path = (case map_of ctx (CollectionIDHeaderKey E) of
                    None \<Rightarrow> path
                  | Some v \<Rightarrow> path @ ''/'' @ (case v of CtxString collectionID \<Rightarrow> collectionID | _ \<Rightarrow> ''''));
          path = path @ ''?'' @ PathEscape E query;
          path = (case map_of ctx (LocaleHeaderKey E) of
                    None \<Rightarrow> path
                  | Some v \<Rightarrow> path @ ''&lang='' @ (case v of CtxString localeCode \<Rightarrow> localeCode | _ \<Rightarrow> ''''))
      in path)"

text \<open>
  \<^verbatim>\<open>get\<close>: the bytes, the headers and the error it returns. With a status outside
  200..399 the body is drained and dropped; the deferred \<^verbatim>\<open>Close\<close> has no part in the
  result.
\<close>

definition get ::
  "env \<Rightarrow> zebedee_Client \<Rightarrow> go_context \<Rightarrow> string \<Rightarrow> string
     \<Rightarrow> string option \<times> http_Header option \<times> go_error option" where
  "get E c ctx userAccessToken path =
     (case http_NewRequest E ''GET'' (url c @ path) of
        Inl err \<Rightarrow> (None, None, Some err)
      | Inr req \<Rightarrow>
          (let req = AddFlorenceHeader E req userAccessToken in
           case cli c ctx req of
             Inl err \<Rightarrow> (None, None, Some err)
           | Inr resp \<Rightarrow>
               if StatusCode resp < 200 \<or> StatusCode resp > 399 then
                 (None, None, Some (ErrInvalidZebedeeResponse (StatusCode resp) (URL_Path req)))
               else
                 (case ioutil_ReadAll (Body resp) of
                    (b, err) \<Rightarrow> (Some b, Some (RespHeader resp), err))))"

definition bytes_of :: "string option \<Rightarrow> string" where
  "bytes_of b = (case b of None \<Rightarrow> '''' | Some s \<Rightarrow> s)"

definition GetPageTitle ::
  "env \<Rightarrow> zebedee_types \<Rightarrow> zebedee_Client \<Rightarrow> go_context \<Rightarrow> string \<Rightarrow> string
     \<Rightarrow> goval \<times> go_error option" where
  "GetPageTitle E T c ctx userAccessToken uri =
     (let reqURL = createRequestURL E ctx ''/data'' (''uri='' @ uri @ ''&title'') in
      case get E c ctx userAccessToken reqURL of
        (b, h, Some err) \<Rightarrow> (zero (PageTitle_t T), Some err)
      | (b, h, None) \<Rightarrow>
          json_Unmarshal (decode (zebedee_decls T) (PageTitle_t T)) (bytes_of b) (zero (PageTitle_t T)))"

text \<open>
  The enrichment of the related pages. Every unit of work takes one entry, asks for
  the title of its page and writes \<^verbatim>\<open>element[i].Title = t.Title\<close>, whatever error came
  with \<^verbatim>\<open>t\<close>; the slices share their arrays with the fields of \<^verbatim>\<open>dlp\<close>. The units
  write to different entries and read nothing that another one writes, so the state
  after \<^verbatim>\<open>wg.Wait()\<close> is the one computed here entry by entry, however the units
  are scheduled; the schedules themselves are the subject of the next section.
\<close>

definition resolve_title ::
  "env \<Rightarrow> zebedee_types \<Rightarrow> zebedee_Client \<Rightarrow> go_context \<Rightarrow> string \<Rightarrow> goval \<Rightarrow> goval" where
  "resolve_title E T c ctx userAccessToken e =
     (case GetPageTitle E T c ctx userAccessToken (string_of (sel ''URI'' e)) of
        (t, err) \<Rightarrow> assign e ''Title'' (sel ''Title'' t))"

definition resolve_related ::
  "env \<Rightarrow> zebedee_types \<Rightarrow> zebedee_Client \<Rightarrow> go_context \<Rightarrow> string \<Rightarrow> string \<Rightarrow> goval \<Rightarrow> goval" where
  "resolve_related E T c ctx userAccessToken n dlp =
     (case slice_of (sel n dlp) of
        None \<Rightarrow> dlp
      | Some element \<Rightarrow>
          assign dlp n (VSlice (Some (map (resolve_title E T c ctx userAccessToken) element))))"

definition related_fields :: "string list" where
  "related_fields =
     [''RelatedDatasets'', ''RelatedDocuments'', ''RelatedMethodology'', ''RelatedMethodologyArticle'']"

definition GetDatasetLandingPage ::
  "env \<Rightarrow> zebedee_types \<Rightarrow> zebedee_Client \<Rightarrow> go_context \<Rightarrow> string \<Rightarrow> string
     \<Rightarrow> goval \<times> go_error option" where
  "GetDatasetLandingPage E T c ctx userAccessToken path =
     (let reqURL = createRequestURL E ctx ''/data'' (''uri='' @ path) in
      case get E c ctx userAccessToken reqURL of
        (b, h, Some err) \<Rightarrow> (zero (DatasetLandingPage_t T), Some err)
      | (b, h, None) \<Rightarrow>
          (case json_Unmarshal (decode (zebedee_decls T) (DatasetLandingPage_t T)) (bytes_of b)
                  (zero (DatasetLandingPage_t T)) of
             (dlp, Some err) \<Rightarrow> (dlp, Some err)
           | (dlp, None) \<Rightarrow>
               (fold (resolve_related E T c ctx userAccessToken) related_fields dlp, None)))"

section \<open>Package identity\<close>

text \<open>
  The client: base URL and transport, which may be missing (\<^verbatim>\<open>nil\<close>); the receiver is
  a copy, so setting its \<^verbatim>\<open>HTTPClient\<close> has no effect outside the call. Logging is left
  out, and with it \<^verbatim>\<open>splitTokens\<close>, which only prepares log data.
\<close>

record IdentityClient =
  BaseURL :: string
  HTTPClient :: "(go_context \<Rightarrow> http_request \<Rightarrow> go_error + http_response) option"

text \<open>
  \<^verbatim>\<open>unmarshalIdentityResponse\<close>: the target is a pointer to a pointer, which
  \<^verbatim>\<open>json.Unmarshal\<close> sets to \<^verbatim>\<open>nil\<close> for \<^verbatim>\<open>null\<close> and otherwise to a new struct that it
  decodes into.
\<close>

definition unmarshalIdentityResponse :: "env \<Rightarrow> http_response \<Rightarrow> goval option \<times> go_error option" where
  "unmarshalIdentityResponse E resp =
     (case ioutil_ReadAll (Body resp) of
        (b, Some err) \<Rightarrow> (None, Some err)
      | (b, None) \<Rightarrow>
          (case json_parse b of
             None \<Rightarrow> (None, Some SyntaxError)
           | Some JNull \<Rightarrow> (None, None)
           | Some j \<Rightarrow>
               (case decode (common_decls E) (IdentityResponse_t E) j (zero (IdentityResponse_t E)) of
                  (v, err) \<Rightarrow> (Some v, err))))"

text \<open>
  \<^verbatim>\<open>CheckRequest\<close>: the three values it returns, or the panic of reading
  \<^verbatim>\<open>identityResp.Identifier\<close> through a \<^verbatim>\<open>nil\<close> pointer, together with the requests sent
  to the transport, in order.
\<close>

definition CheckRequest ::
  "env \<Rightarrow> IdentityClient \<Rightarrow> http_request
     \<Rightarrow> (go_context option \<times> int \<times> go_error option) outcome \<times> http_request list" where
  "CheckRequest E api req =
     (let ctx = Ctx req;
          florenceToken = Header_Get E (Header req) (FlorenceHeaderKey E);
          authToken = Header_Get E (Header req) (AuthHeaderKey E);
          isUserReq = (length florenceToken > 0);
          isServiceReq = (length authToken > 0)
      in if \<not> isUserReq \<and> \<not> isServiceReq then (Return (Some ctx, StatusOK, None), [])
         else
           (case http_NewRequest E ''GET'' (BaseURL api @ ''/identity'') of
              Inl err \<Rightarrow> (Return (None, 0, Some err), [])
            | Inr outboundAuthReq \<Rightarrow>
                (let outboundAuthReq =
                       (if isUserReq
                        then outboundAuthReq\<lparr>Header :=
                               Header_Set E (Header outboundAuthReq) (FlorenceHeaderKey E) florenceToken\<rparr>
                        else outboundAuthReq\<lparr>Header :=
                               Header_Set E (Header outboundAuthReq) (AuthHeaderKey E) authToken\<rparr>);
                     client = (case HTTPClient api of None \<Rightarrow> rchttp_NewClient E | Some d \<Rightarrow> d)
                 in case client ctx outboundAuthReq of
                      Inl err \<Rightarrow> (Return (None, 0, Some err), [outboundAuthReq])
                    | Inr resp \<Rightarrow>
                        if StatusCode resp \<noteq> StatusOK
                        then (Return (None, StatusCode resp, None), [outboundAuthReq])
                        else
                          (case unmarshalIdentityResponse E resp of
                             (identityResp, Some err) \<Rightarrow> (Return (None, 0, Some err), [outboundAuthReq])
                           | (None, None) \<Rightarrow> (Panic, [outboundAuthReq])
                           | (Some identityResp, None) \<Rightarrow>
                               (let userIdentity =
                                      (if isUserReq then string_of (sel ''Identifier'' identityResp)
                                       else Header_Get E (Header req) (UserHeaderKey E));
                                    ctx = WithValue ctx (UserIdentityKey E) (CtxString userIdentity);
                                    ctx = WithValue ctx (CallerIdentityKey E)
                                            (CtxString (string_of (sel ''Identifier'' identityResp)))
                                in (Return (Some ctx, StatusOK, None), [outboundAuthReq]))))))"

section \<open>The fan-out of \<^verbatim>\<open>GetDatasetLandingPage\<close>, step by step\<close>

text \<open>
  The loop of \<^verbatim>\<open>GetDatasetLandingPage\<close> and the goroutines it starts, as a transition
  system in which any of them may take the next step. The state has the entries that
  the loop has yet to start (\<open>todo\<close>, the current one first) and the place of the loop
  on the current entry (\<open>at\<close>); the units of work by what they do next: call
  \<^verbatim>\<open>GetPageTitle\<close> (\<open>fetching\<close>), write the title (\<open>fetched\<close>), receive from \<^verbatim>\<open>sem\<close>
  (\<open>releasing\<close>), call \<^verbatim>\<open>wg.Done()\<close> (\<open>finishing\<close>), nothing (\<open>finished\<close>); the number
  of values in the channel \<^verbatim>\<open>sem\<close>, the counter of \<^verbatim>\<open>wg\<close>, the titles written so far
  by entry, and whether \<^verbatim>\<open>wg.Wait()\<close> has returned. \<open>work x\<close> is the title that the
  unit of entry \<open>x\<close> writes.
\<close>

datatype loop_pc = AtSend | AtAdd | AtGo

record ('a, 'b) fan =
  todo :: "'a list"
  at :: loop_pc
  fetching :: "'a list"
  fetched :: "'a list"
  releasing :: "'a list"
  finishing :: "'a list"
  finished :: "'a list"
  sem :: nat
  wg :: nat
  titles :: "'a \<rightharpoonup> 'b"
  returned :: bool

text \<open>The capacity of the channel: \<^verbatim>\<open>make(chan int, 10)\<close>.\<close>

definition sem_capacity :: nat where
  "sem_capacity = 10"

definition fan_init :: "'a list \<Rightarrow> ('a, 'b) fan" where
  "fan_init xs =
     \<lparr>todo = xs, at = AtSend, fetching = [], fetched = [], releasing = [], finishing = [],
      finished = [], sem = 0, wg = 0, titles = Map.empty, returned = False\<rparr>"

text \<open>
  The steps. Of the loop: \<^verbatim>\<open>sem <- 1\<close>, which has to wait while the channel holds
  10 values; \<^verbatim>\<open>wg.Add(1)\<close>; \<^verbatim>\<open>go func(...)\<close>, after which the loop is at the next
  entry; and, after the last entry, \<^verbatim>\<open>wg.Wait()\<close>, which returns when the counter is
  zero. Of a unit: \<^verbatim>\<open>t, _ := c.GetPageTitle(...)\<close>; \<^verbatim>\<open>element[i].Title = t.Title\<close>;
  and the deferred \<^verbatim>\<open><-sem\<close>, which needs a value in the channel, and \<^verbatim>\<open>wg.Done()\<close>,
  which needs a positive counter. No step takes a unit away before it has finished:
  nothing cancels a unit.
\<close>

inductive fan_step :: "('a \<Rightarrow> 'b) \<Rightarrow> ('a, 'b) fan \<Rightarrow> ('a, 'b) fan \<Rightarrow> bool"
  for work :: "'a \<Rightarrow> 'b"
where
  loop_send: "todo s = x # xs \<Longrightarrow> at s = AtSend \<Longrightarrow> sem s < sem_capacity \<Longrightarrow>
         fan_step work s (s\<lparr>sem := sem s + 1, at := AtAdd\<rparr>)"
| loop_add: "todo s = x # xs \<Longrightarrow> at s = AtAdd \<Longrightarrow>
        fan_step work s (s\<lparr>wg := wg s + 1, at := AtGo\<rparr>)"
| loop_go: "todo s = x # xs \<Longrightarrow> at s = AtGo \<Longrightarrow>
       fan_step work s (s\<lparr>todo := xs, at := AtSend, fetching := x # fetching s\<rparr>)"
| loop_wait: "todo s = [] \<Longrightarrow> wg s = 0 \<Longrightarrow> \<not> returned s \<Longrightarrow>
         fan_step work s (s\<lparr>returned := True\<rparr>)"
| unit_fetch: "x \<in> set (fetching s) \<Longrightarrow>
          fan_step work s (s\<lparr>fetching := remove1 x (fetching s), fetched := x # fetched s\<rparr>)"
| unit_write: "x \<in> set (fetched s) \<Longrightarrow>
          fan_step work s (s\<lparr>fetched := remove1 x (fetched s), releasing := x # releasing s,
                              titles := (titles s)(x \<mapsto> work x)\<rparr>)"
| unit_receive: "x \<in> set (releasing s) \<Longrightarrow> 0 < sem s \<Longrightarrow>
            fan_step work s (s\<lparr>releasing := remove1 x (releasing s), finishing := x # finishing s,
                                sem := sem s - 1\<rparr>)"
| unit_done: "x \<in> set (finishing s) \<Longrightarrow> 0 < wg s \<Longrightarrow>
         fan_step work s (s\<lparr>finishing := remove1 x (finishing s), finished := x # finished s,
                             wg := wg s - 1\<rparr>)"

text \<open>
  The units in flight are those started that have not yet given their place in the
  channel back; the units alive are those that have not yet called \<^verbatim>\<open>wg.Done()\<close>.
\<close>

definition in_flight :: "('a, 'b) fan \<Rightarrow> nat" where
  "in_flight s = length (fetching s) + length (fetched s) + length (releasing s)"

definition alive :: "('a, 'b) fan \<Rightarrow> nat" where
  "alive s = in_flight s + length (finishing s)"

text \<open>
  What holds in every state that can be reached: the channel holds one value for each
  unit in flight and one for the entry the loop is about to start; the counter counts
  the units alive and the entry about to be started; every entry is in exactly one
  place; the titles written are those of the units that have written; and after the
  return nothing is left to start or alive.
\<close>

definition fan_inv :: "('a \<Rightarrow> 'b) \<Rightarrow> 'a list \<Rightarrow> ('a, 'b) fan \<Rightarrow> bool" where
  "fan_inv work xs s \<longleftrightarrow>
     sem s = in_flight s + (if at s = AtSend then 0 else 1)
   \<and> wg s = alive s + (if at s = AtGo then 1 else 0)
   \<and> sem s \<le> sem_capacity
   \<and> (at s \<noteq> AtSend \<longrightarrow> todo s \<noteq> [])
   \<and> mset (todo s) + mset (fetching s) + mset (fetched s) + mset (releasing s)
        + mset (finishing s) + mset (finished s) = mset xs
   \<and> (\<forall>x. titles s x =
          (if x \<in># mset (releasing s) + mset (finishing s) + mset (finished s)
           then Some (work x) else None))
   \<and> (returned s \<longrightarrow> todo s = [] \<and> alive s = 0)"

text \<open>The number of steps that are left at most.\<close>

definition fan_rank :: "('a, 'b) fan \<Rightarrow> nat" where
  "fan_rank s =
     7 * length (todo s) + (case at s of AtSend \<Rightarrow> 2 | AtAdd \<Rightarrow> 1 | AtGo \<Rightarrow> 0)
       + 4 * length (fetching s) + 3 * length (fetched s) + 2 * length (releasing s)
       + length (finishing s) + (if returned s then 0 else 1)"

text \<open>
  The units of a page: one for each entry of the four lists, in the order of the two
  loops, named by list and index; and the title that the unit of an entry writes.
\<close>

definition related_of :: "goval \<Rightarrow> string \<Rightarrow> goval list" where
  "related_of dlp n = elems (slice_of (sel n dlp))"

definition units_of :: "goval \<Rightarrow> (string \<times> nat) list" where
  "units_of dlp =
     concat (map (\<lambda>n. map (\<lambda>i. (n, i)) [0..<length (related_of dlp n)]) related_fields)"

definition unit_title ::
  "env \<Rightarrow> zebedee_types \<Rightarrow> zebedee_Client \<Rightarrow> go_context \<Rightarrow> string \<Rightarrow> goval
     \<Rightarrow> string \<times> nat \<Rightarrow> goval" where
  "unit_title E T c ctx userAccessToken dlp u =
     (case u of (n, i) \<Rightarrow>
        sel ''Title'' (fst (GetPageTitle E T c ctx userAccessToken
                              (string_of (sel ''URI'' (related_of dlp n ! i))))))"

section \<open>Package stream\<close>

text \<open>
  \<^verbatim>\<open>Stream\<close> starts the transformer and the consumer, waits for both
  (\<^verbatim>\<open>wg.Wait()\<close>) and only then reads \<^verbatim>\<open>errTransform\<close> and \<^verbatim>\<open>errConsume\<close>.
  The model takes the two values the calls returned (\<open>None\<close> is \<^verbatim>\<open>nil\<close>) and
  follows the chain of tests after the join.
\<close>

definition Stream :: "go_error option \<Rightarrow> go_error option \<Rightarrow> go_error option" where
  "Stream errTransform errConsume =
     (if errTransform \<noteq> None \<and> errConsume \<noteq> None then
        Some (FmtError ''transform error: %v, consumer error: %v'' [the errTransform, the errConsume])
      else if errTransform \<noteq> None then Some (WrapError ''transform error: %w'' (the errTransform))
      else if errConsume \<noteq> None then Some (WrapError ''consumer error: %w'' (the errConsume))
      else None)"

section \<open>The list of datasets\<close>

text \<open>
  Modelled from the spec: \<^verbatim>\<open>ListDatasets\<close> is not among the sources, only its test
  is. Spec 4.4: ``read \<^verbatim>\<open>edges[].node.name\<close> at the top variables level'', giving the
  ``ordered list of names, order preserved from response''. The response is a value of
  the graph type \<^verbatim>\<open>DatasetVariables\<close>; the names are collected by a loop over the edges.
  As in the two tests, the query either fails, and the error is returned with no list,
  or has filled in the response.
\<close>

fun collect_names :: "goval list \<Rightarrow> string list \<Rightarrow> string list" where
  "collect_names [] names = names"
| "collect_names (edge # edges) names =
     collect_names edges (names @ [string_of (sel ''Name'' (sel ''Node'' edge))])"

definition ListDatasets :: "go_error + goval \<Rightarrow> string list option \<times> go_error option" where
  "ListDatasets queried =
     (case queried of
        Inl err \<Rightarrow> (None, Some err)
      | Inr response \<Rightarrow>
          (Some (collect_names (elems (slice_of (sel ''Edges'' (sel ''Variables'' response)))) []), None))"

section \<open>Sample data\<close>

text \<open>
  A response with a body of \<^verbatim>\<open>net/http\<close> (once closed it cannot be read), and a
  client whose transport answers every request with the same response; the hosts are
  those of the tests. \<open>quoted\<close> puts a string between double quotes.
\<close>

definition ErrBodyReadAfterClose :: go_error where
  "ErrBodyReadAfterClose = ErrorString ''http: read on closed response body''"

definition respond :: "int \<Rightarrow> string \<Rightarrow> http_response" where
  "respond status b =
     \<lparr>StatusCode = status,
      Body = \<lparr>content = b, read_err = None, after_close = ('''', Some ErrBodyReadAfterClose),
              closed = False\<rparr>,
      RespHeader = []\<rparr>"

definition answering :: "http_response \<Rightarrow> Client" where
  "answering res =
     \<lparr>host = ''cantabular.host'', extApiHost = ''cantabular.ext.host'',
      httpGet = (\<lambda>u. Inr res), httpPost = (\<lambda>u t b. Inr res)\<rparr>"

definition quoted :: "string \<Rightarrow> string" where
  "quoted s = CHR 0x22 # s @ [CHR 0x22]"

definition sample_query :: string where
  "sample_query = ''query($dataset: String!) { dataset(name: $dataset) { variables { edges { node { name } } } } }''"

definition sample_data :: QueryData where
  "sample_data = \<lparr>Dataset = ''Example'', Text = '''', Variables = None, Filters = None\<rparr>"

text \<open>\<^verbatim>\<open>{"variables":{"edges":[]},"error":"dataset not found"}\<close>\<close>

definition error_body :: string where
  "error_body =
     ''{'' @ quoted ''variables'' @ '':{'' @ quoted ''edges'' @ '':[]},''
       @ quoted ''error'' @ '':'' @ quoted ''dataset not found'' @ ''}''"

text \<open>
  \<^verbatim>\<open>{"variables":{"edges":[{"node":{"name":"dataset 1"}},{"node":{"name":"dataset 2"}}]}}\<close>
\<close>

definition dataset_list_body :: string where
  "dataset_list_body =
     ''{'' @ quoted ''variables'' @ '':{'' @ quoted ''edges'' @ '':[{''
       @ quoted ''node'' @ '':{'' @ quoted ''name'' @ '':'' @ quoted ''dataset 1'' @ ''}},{''
       @ quoted ''node'' @ '':{'' @ quoted ''name'' @ '':'' @ quoted ''dataset 2'' @ ''}}]}}''"


text \<open>
  An environment: URLs parse to themselves, nothing is escaped or canonicalised, no
  header is added and the default client reaches no server; the keys are those of
  \<^verbatim>\<open>go-ns/common\<close>.
\<close>

definition sample_env :: env where
  "sample_env =
     \<lparr>url_Parse = (\<lambda>u. Inr u), PathEscape = (\<lambda>s. s), CanonicalHeaderKey = (\<lambda>k. k),
      AddFlorenceHeader = (\<lambda>r t. r),
      rchttp_NewClient = (\<lambda>ctx r. Inl (ErrorString ''connection refused'')),
      FlorenceHeaderKey = ''X-Florence-Token'', AuthHeaderKey = ''Authorization'',
      UserHeaderKey = ''User-Identity'', UserIdentityKey = ''User-Identity'',
      CallerIdentityKey = ''Caller-Identity'', CollectionIDHeaderKey = ''Collection-Id'',
      LocaleHeaderKey = ''LocaleCode'',
      IdentityResponse_t = GoStruct [Field ''Identifier'' ''identifier'' GoString],
      common_decls = (\<lambda>n. GoStruct [])\<rparr>"

definition sample_request :: http_request where
  "sample_request =
     \<lparr>Ctx = [(''request-id'', CtxString ''abc'')], Method = ''GET'', URL = ''/datasets'',
      URL_Path = ''/datasets'', Header = [(''Accept'', [''application/json''])]\<rparr>"

definition sample_identity :: IdentityClient where
  "sample_identity = \<lparr>BaseURL = ''http://localhost:8082'', HTTPClient = None\<rparr>"

text \<open>
  Declarations standing in for those of package zebedee: the fields that the functions
  name, under the JSON keys of their names.
\<close>

definition Related_t :: gotype where
  "Related_t = GoStruct [Field ''Title'' ''title'' GoString, Field ''URI'' ''uri'' GoString]"

definition sample_types :: zebedee_types where
  "sample_types =
     \<lparr>zebedee_decls = (\<lambda>n. if n = ''Related'' then Related_t else GoStruct []),
      DatasetLandingPage_t = GoStruct
        [Field ''RelatedDatasets'' ''relatedDatasets'' (GoSlice ''Related''),
         Field ''RelatedDocuments'' ''relatedDocuments'' (GoSlice ''Related''),
         Field ''RelatedMethodology'' ''relatedMethodology'' (GoSlice ''Related''),
         Field ''RelatedMethodologyArticle'' ''relatedMethodologyArticle'' (GoSlice ''Related'')],
      PageTitle_t = GoStruct [Field ''Title'' ''title'' GoString]\<rparr>"



text \<open>
  Responses of the other catalog queries, as trees, from the level of \<^verbatim>\<open>dataset\<close>:
  the geography dimensions, the search for dimensions, the search for areas, and the
  table of the two static dataset queries.
\<close>

definition geography_response :: json where
  "geography_response =
     JObject [(''ruleBase'', JObject
       [(''name'', JString ''Usual-Residents''),
        (''isSourceOf'', JObject [(''edges'', JArray [JObject [(''node'', JObject
           [(''name'', JString ''country''),
            (''mapFrom'', JArray []),
            (''label'', JString ''Country''),
            (''categories'', JObject [(''totalCount'', JInt 2)])])]])])])]"

definition search_response :: json where
  "search_response =
     JObject [(''variables'', JObject [(''search'', JObject [(''edges'', JArray [JObject [(''node'', JObject
       [(''name'', JString ''hh_deprivation_health''),
        (''label'', JString ''Household deprivation in the health and disability dimension''),
        (''mapFrom'', JArray [JObject
           [(''totalCount'', JInt 1),
            (''edges'', JArray [JObject [(''node'', JObject
               [(''name'', JString ''hh_deprivation''),
                (''label'', JString ''Household deprivation'')])]])]])])]])])])]"

definition areas_response :: json where
  "areas_response =
     JObject [(''ruleBase'', JObject [(''isSourceOf'', JObject [(''categorySearch'', JObject
       [(''edges'', JArray [JObject [(''node'', JObject
          [(''code'', JString ''E''),
           (''label'', JString ''England''),
           (''variable'', JObject
              [(''mapFrom'', JArray [JObject [(''edges'', JArray [JObject [(''node'', JObject
                  [(''name'', JString ''region''), (''label'', JString ''Region'')])]])]]),
               (''name'', JString ''country'')])])]])])])])]"

definition table_response :: json where
  "table_response =
     JObject [(''table'', JObject
       [(''dimensions'', JArray [JObject
          [(''count'', JInt 2),
           (''variable'', JObject [(''name'', JString ''sex''), (''label'', JString ''Sex'')]),
           (''categories'', JArray
              [JObject [(''code'', JString ''0''), (''label'', JString ''Male'')],
               JObject [(''code'', JString ''1''), (''label'', JString ''Female'')]])]]),
        (''values'', JArray [JInt 2, JInt 1]),
        (''error'', JNull)])]"



text \<open>
  A zebedee that knows the title of one page only: the request for the title of
  \<^verbatim>\<open>/a\<close> is answered with \<^verbatim>\<open>{"title":"Alpha"}\<close>, every other request for a title (a
  URL ending in \<^verbatim>\<open>&title\<close>) with status 404, and every other request with the given
  response. The page
  \<^verbatim>\<open>{"relatedDatasets":[{"uri":"/a","title":"A"},{"uri":"/b","title":"B"}]}\<close>.
\<close>

definition one_title_zebedee :: "http_response \<Rightarrow> zebedee_Client" where
  "one_title_zebedee res =
     \<lparr>cli = (\<lambda>ctx r.
               if URL r = ''http://localhost:8082/data?uri=/a&title''
               then Inr (respond 200 (''{'' @ quoted ''title'' @ '':'' @ quoted ''Alpha'' @ ''}''))
               else if drop (length (URL r) - 6) (URL r) = ''&title'' then Inr (respond 404 '''')
               else Inr res),
      url = ''http://localhost:8082''\<rparr>"

definition related_body :: string where
  "related_body =
     ''{'' @ quoted ''relatedDatasets'' @ '':[{'' @ quoted ''uri'' @ '':'' @ quoted ''/a'' @ '',''
       @ quoted ''title'' @ '':'' @ quoted ''A'' @ ''},{'' @ quoted ''uri'' @ '':'' @ quoted ''/b'' @ '',''
       @ quoted ''title'' @ '':'' @ quoted ''B'' @ ''}]}''"

section \<open>Auxiliary facts\<close>

lemma sorted_query_variables:
  "marshal_map [(''query'', a), (''variables'', b)] = JObject [(''query'', a), (''variables'', b)]"
  by (simp add: marshal_map_def)

lemma sorted_vars_without_filters:
  "marshal_map [(''dataset'', a), (''variables'', b), (''text'', c)]
     = JObject [(''dataset'', a), (''text'', c), (''variables'', b)]"
  by (simp add: marshal_map_def)

lemma sorted_vars_with_filters:
  "marshal_map [(''dataset'', a), (''variables'', b), (''text'', c), (''filters'', d)]
     = JObject [(''dataset'', a), (''filters'', d), (''text'', c), (''variables'', b)]"
  by (simp add: marshal_map_def)

lemma Encode_Inr: "\<exists>b. Encode data query = Inr b"
  by (simp add: Encode_def Encoder_Encode_def Let_def)

lemma parse_placeholder: "json_parse ''[response body empty]'' = None"
  by code_simp

lemma first_error_None [simp]: "first_error e1 e2 = None \<longleftrightarrow> e1 = None \<and> e2 = None"
  by (simp add: first_error_def split: option.splits)


text \<open>A member whose key selects no field has no effect.\<close>

lemma decode_members_skip:
  "find_field fs k = None \<Longrightarrow>
   decode_members D fs (filter (\<lambda>m. fst m \<noteq> k) ms) fvs = decode_members D fs ms fvs"
  by (induction ms arbitrary: fvs) (auto split: option.splits prod.splits)

lemma gql_types_struct:
  "ty \<in> set gql_types \<Longrightarrow>
     \<exists>fs. ty = GoStruct fs \<and> distinct (map field_name fs) \<and> find_field fs ''error'' = None"
  unfolding gql_types_def
  by (auto simp: DatasetRuleBase_t_def DatasetVariables_t_def RuleBase_t_def Variables_t_def
      Search_t_def Edge_t_def Node_t_def Categories_t_def Variable_t_def find_field_def byte_def)

text \<open>A field that no member selects keeps its value.\<close>

lemma set_field_map_of: "map_of (set_field fvs n v) m = (if m = n then Some v else map_of fvs m)"
  by (induction fvs n v rule: set_field.induct) auto






lemma collect_names_map:
  "collect_names edges names = names @ map (\<lambda>edge. string_of (sel ''Name'' (sel ''Node'' edge))) edges"
  by (induction edges arbitrary: names) auto

text \<open>The sample responses of the catalog queries fit the graph types.\<close>

lemma catalog_responses_fit:
  "fits gql DatasetRuleBase_t geography_response"
  "fits gql DatasetVariables_t search_response"
  "fits gql DatasetRuleBase_t areas_response"
  "fits gql DatasetVariables_t table_response"
  "fits gql DatasetRuleBase_t table_response"
  by code_simp+

text \<open>
  After the related pages of a field have been resolved, the field holds the same
  entries in the same order, each with the title fetched for its URI.
\<close>

lemma sel_assign: "sel n (assign s n v) = v"
  by (simp add: sel_def assign_def fields_of_def set_field_map_of)

lemma resolve_related_entries:
  "slice_of (sel n dlp) = Some element \<Longrightarrow>
   slice_of (sel n (resolve_related E T c ctx tok n dlp))
     = Some (map (resolve_title E T c ctx tok) element)"
  by (simp add: resolve_related_def sel_assign slice_of_def)

text \<open>The fan-out: the invariant, progress, the bound on the steps, and the join.\<close>

lemma fan_inv_init: "fan_inv work xs (fan_init xs)"
  by (simp add: fan_inv_def fan_init_def in_flight_def alive_def)

lemma move_length: "x \<in> set A \<Longrightarrow> length (remove1 x A) + 1 = length A"
  using length_pos_if_in_set [of x A] by (simp add: length_remove1)

lemma move_mset: "x \<in> set A \<Longrightarrow> mset (remove1 x A) + add_mset x M = mset A + M"
  by simp

lemma step_counts:
  assumes "fan_step work s s'"
    and "sem s = in_flight s + (if at s = AtSend then 0 else 1)"
    and "wg s = alive s + (if at s = AtGo then 1 else 0)"
    and "sem s \<le> sem_capacity"
    and "at s \<noteq> AtSend \<longrightarrow> todo s \<noteq> []"
  shows "sem s' = in_flight s' + (if at s' = AtSend then 0 else 1)
       \<and> wg s' = alive s' + (if at s' = AtGo then 1 else 0)
       \<and> sem s' \<le> sem_capacity
       \<and> (at s' \<noteq> AtSend \<longrightarrow> todo s' \<noteq> [])"
  using assms
proof (cases rule: fan_step.cases)
  case (unit_fetch x)
  with assms move_length [OF unit_fetch(2)] show ?thesis
    by (auto simp add: in_flight_def alive_def simp del: length_remove1)
next
  case (unit_write x)
  with assms move_length [OF unit_write(2)] show ?thesis
    by (auto simp add: in_flight_def alive_def simp del: length_remove1)
next
  case (unit_receive x)
  with assms move_length [OF unit_receive(2)] show ?thesis
    by (auto simp add: in_flight_def alive_def simp del: length_remove1)
next
  case (unit_done x)
  with assms move_length [OF unit_done(2)] show ?thesis
    by (auto simp add: in_flight_def alive_def simp del: length_remove1)
qed (simp_all add: in_flight_def alive_def)


lemma step_units:
  assumes "fan_step work s s'"
  shows "mset (todo s') + mset (fetching s') + mset (fetched s') + mset (releasing s')
           + mset (finishing s') + mset (finished s')
         = mset (todo s) + mset (fetching s) + mset (fetched s) + mset (releasing s)
           + mset (finishing s) + mset (finished s)"
  using assms
  by (cases rule: fan_step.cases) auto

lemma step_titles:
  assumes "fan_step work s s'"
    and "\<forall>x. titles s x =
          (if x \<in># mset (releasing s) + mset (finishing s) + mset (finished s)
           then Some (work x) else None)"
  shows "\<forall>x. titles s' x =
          (if x \<in># mset (releasing s') + mset (finishing s') + mset (finished s')
           then Some (work x) else None)"
  using assms
  by (cases rule: fan_step.cases) auto

lemma step_returned:
  assumes "fan_step work s s'"
    and "wg s = alive s + (if at s = AtGo then 1 else 0)"
    and "returned s \<longrightarrow> todo s = [] \<and> alive s = 0"
  shows "returned s' \<longrightarrow> todo s' = [] \<and> alive s' = 0"
  using assms
  by (cases rule: fan_step.cases) (auto simp: alive_def in_flight_def)

lemma fan_inv_step: "fan_step work s s' \<Longrightarrow> fan_inv work xs s \<Longrightarrow> fan_inv work xs s'"
  unfolding fan_inv_def
  using step_counts [of work s s'] step_units [of work s s'] step_titles [of work s s']
    step_returned [of work s s']
  by simp

lemma fan_inv_reachable: "(fan_step work)\<^sup>*\<^sup>* (fan_init xs) s \<Longrightarrow> fan_inv work xs s"
  by (induction rule: rtranclp_induct) (auto intro: fan_inv_init fan_inv_step)

lemma fan_rank_step:
  assumes "fan_step work s s'"
  shows "fan_rank s' < fan_rank s"
  using assms
proof (cases rule: fan_step.cases)
  case (unit_fetch x)
  with move_length [OF unit_fetch(2)] show ?thesis
    by (auto simp: fan_rank_def simp del: length_remove1)
next
  case (unit_write x)
  with move_length [OF unit_write(2)] show ?thesis
    by (auto simp: fan_rank_def simp del: length_remove1)
next
  case (unit_receive x)
  with move_length [OF unit_receive(2)] show ?thesis
    by (auto simp: fan_rank_def simp del: length_remove1)
next
  case (unit_done x)
  with move_length [OF unit_done(2)] show ?thesis
    by (auto simp: fan_rank_def simp del: length_remove1)
qed (auto simp: fan_rank_def)

lemma fan_progress:
  assumes "fan_inv work xs s" and "\<not> returned s"
  shows "\<exists>s'. fan_step work s s'"
proof -
  consider (f) x where "x \<in> set (fetching s)" | (g) x where "x \<in> set (fetched s)"
    | (r) x where "x \<in> set (releasing s)" | (d) x where "x \<in> set (finishing s)"
    | (none) "fetching s = []" "fetched s = []" "releasing s = []" "finishing s = []"
    by (cases "fetching s"; cases "fetched s"; cases "releasing s"; cases "finishing s") auto
  then show ?thesis
  proof cases
    case f
    then show ?thesis by (blast intro: fan_step.unit_fetch)
  next
    case g
    then show ?thesis by (blast intro: fan_step.unit_write)
  next
    case r
    with assms(1) have "0 < sem s"
      using length_pos_if_in_set [OF r] by (simp add: fan_inv_def in_flight_def)
    with r show ?thesis by (blast intro: fan_step.unit_receive)
  next
    case d
    with assms(1) have "0 < wg s"
      using length_pos_if_in_set [OF d] by (simp add: fan_inv_def in_flight_def alive_def)
    with d show ?thesis by (blast intro: fan_step.unit_done)
  next
    case none
    show ?thesis
    proof (cases "todo s")
      case Nil
      with assms none have "wg s = 0" "at s = AtSend"
        by (auto simp: fan_inv_def in_flight_def alive_def split: if_splits)
      with Nil assms(2) show ?thesis by (blast intro: fan_step.loop_wait)
    next
      case (Cons x xs')
      show ?thesis
      proof (cases "at s")
        case AtSend
        with assms(1) none have "sem s < sem_capacity"
          by (simp add: fan_inv_def in_flight_def sem_capacity_def)
        with Cons AtSend show ?thesis by (blast intro: fan_step.loop_send)
      next
        case AtAdd
        with Cons show ?thesis by (blast intro: fan_step.loop_add)
      next
        case AtGo
        with Cons show ?thesis by (blast intro: fan_step.loop_go)
      qed
    qed
  qed
qed

lemma fan_completes:
  "fan_inv work xs s \<Longrightarrow> \<exists>s'. (fan_step work)\<^sup>*\<^sup>* s s' \<and> returned s'"
proof (induction "fan_rank s" arbitrary: s rule: less_induct)
  case less
  show ?case
  proof (cases "returned s")
    case True
    then show ?thesis by blast
  next
    case False
    with less.prems obtain s1 where st: "fan_step work s s1"
      using fan_progress by blast
    then have "fan_rank s1 < fan_rank s" and "fan_inv work xs s1"
      using fan_rank_step fan_inv_step less.prems by blast+
    with less.hyps obtain s' where "(fan_step work)\<^sup>*\<^sup>* s1 s'" "returned s'"
      by blast
    with st show ?thesis
      by (meson converse_rtranclp_into_rtranclp)
  qed
qed

lemma fan_returned:
  assumes "fan_inv work xs s" and "returned s"
  shows "mset (finished s) = mset xs \<and> (\<forall>x\<in>set xs. titles s x = Some (work x))"
proof -
  from assms have e: "todo s = []" "fetching s = []" "fetched s = []" "releasing s = []"
    "finishing s = []"
    by (auto simp: fan_inv_def alive_def in_flight_def)
  with assms(1) have m: "mset (finished s) = mset xs"
    by (simp add: fan_inv_def)
  then have "set (finished s) = set xs"
    by (metis set_mset_mset)
  with assms(1) e m show ?thesis
    by (simp add: fan_inv_def)
qed

text \<open>The page after the enrichment, entry by entry.\<close>

lemma sel_assign_other: "m \<noteq> n \<Longrightarrow> sel n (assign s m v) = sel n s"
  by (simp add: sel_def assign_def fields_of_def set_field_map_of)

lemma related_of_resolve_related:
  "related_of (resolve_related E T c ctx tok m dlp) n =
     (if m = n then map (resolve_title E T c ctx tok) (related_of dlp n) else related_of dlp n)"
  by (auto simp: related_of_def resolve_related_def sel_assign sel_assign_other slice_of_def elems_def
      split: option.splits)

lemma related_of_fold:
  "distinct ms \<Longrightarrow>
   related_of (fold (resolve_related E T c ctx tok) ms dlp) n =
     (if n \<in> set ms then map (resolve_title E T c ctx tok) (related_of dlp n) else related_of dlp n)"
  by (induction ms arbitrary: dlp) (auto simp: related_of_resolve_related)

lemma units_of_iff:
  "(n, i) \<in> set (units_of dlp) \<longleftrightarrow> n \<in> set related_fields \<and> i < length (related_of dlp n)"
  by (force simp: units_of_def)

lemma resolve_title_unit:
  "i < length (related_of dlp n) \<Longrightarrow>
   resolve_title E T c ctx tok (related_of dlp n ! i)
     = assign (related_of dlp n ! i) ''Title'' (unit_title E T c ctx tok dlp (n, i))"
  by (simp add: resolve_title_def unit_title_def split: prod.splits)

lemma GetPageTitle_failed_request:
  "get E c ctx tok (createRequestURL E ctx ''/data'' (''uri='' @ uri @ ''&title'')) = (b, h, Some err)
   \<Longrightarrow> GetPageTitle E T c ctx tok uri = (zero (PageTitle_t T), Some err)"
  by (simp add: GetPageTitle_def Let_def)

text \<open>
  \<^verbatim>\<open>postQuery\<close> on a status other than 200, for any client and response: the payload
  of the error is what the body yields once closed.
\<close>

lemma postQuery_non_200:
  assumes "Encode data query = Inr b"
    and "httpPost c (extApiHost c @ ''/graphql'') ''application/json'' b = Inr res"
    and "StatusCode res \<noteq> StatusOK"
  shows "postQuery c query data =
           ((None,
             Some (DpError (case after_close (Body res) of (t, None) \<Rightarrow> ErrorString t | (t, Some e) \<Rightarrow> e)
                           (StatusCode res)
                           [(''url'', LogString (extApiHost c @ ''/graphql''))])),
            Some (close_body res))"
  using assms
  by (simp add: postQuery_def Let_def closeResponseBody_def errorResponse_def
        ioutil_ReadAll_def close_body_def)

section \<open>Properties\<close>

text \<open>
  C1. For every \<^verbatim>\<open>QueryData\<close> and every query string, \<^verbatim>\<open>Encode\<close> succeeds with the
  object \<^verbatim>\<open>{"query": ..., "variables": vars}\<close>, where \<open>vars\<close> has the keys
  \<^verbatim>\<open>dataset\<close>, \<^verbatim>\<open>variables\<close> and \<^verbatim>\<open>text\<close>, each once, and the key \<^verbatim>\<open>filters\<close> exactly
  when the sequence of filters is not empty; then its value is the array of the filters
  in their order, each an object \<^verbatim>\<open>{"codes": ..., "variable": ...}\<close>.
\<close>

theorem Encode_variables_keys:
  "\<exists>vars. Encode data query = Inr (JObject [(''query'', JString query), (''variables'', JObject vars)])
     \<and> distinct (map fst vars)
     \<and> set (map fst vars) = {''dataset'', ''variables'', ''text''}
          \<union> (if elems (Filters data) = [] then {} else {''filters''})
     \<and> map_of vars ''dataset'' = Some (JString (Dataset data))
     \<and> map_of vars ''variables'' = Some (marshal_strings (Variables data))
     \<and> map_of vars ''text'' = Some (JString (Text data))
     \<and> map_of vars ''filters'' =
          (if elems (Filters data) = [] then None
           else Some (JArray (map (\<lambda>f. JObject [(''codes'', marshal_strings (Codes f)),
                                                  (''variable'', JString (Variable f))])
                                   (elems (Filters data)))))"
proof (cases "elems (Filters data) = []")
  case True
  then have "len (Filters data) = 0"
    by (auto simp: len_def elems_def split: option.splits)
  then have "Encode data query = Inr (JObject [(''query'', JString query), (''variables'',
      JObject [(''dataset'', JString (Dataset data)), (''text'', JString (Text data)),
               (''variables'', marshal_strings (Variables data))])])"
    by (simp add: Encode_def Encoder_Encode_def sorted_query_variables sorted_vars_without_filters)
  with True show ?thesis by auto
next
  case False
  then obtain fs where fs: "Filters data = Some fs" "fs \<noteq> []"
    by (auto simp: elems_def split: option.splits)
  then have "len (Filters data) > 0" by (simp add: len_def)
  then have "Encode data query = Inr (JObject [(''query'', JString query), (''variables'',
      JObject [(''dataset'', JString (Dataset data)),
               (''filters'', marshal_Filters (Filters data)),
               (''text'', JString (Text data)),
               (''variables'', marshal_strings (Variables data))])])"
    by (simp add: Encode_def Encoder_Encode_def sorted_query_variables sorted_vars_with_filters)
  with fs show ?thesis
    by (auto simp: elems_def marshal_Filters_def marshal_Filter_def)
qed

text \<open>
  C4 does not hold of the code. When the POST to \<^verbatim>\<open>/graphql\<close> is answered with a status other
  than 200, \<^verbatim>\<open>postQuery\<close> returns no response and an error that carries the status code of the
  response, and the body has been closed by then. But it calls \<^verbatim>\<open>closeResponseBody\<close> before
  \<^verbatim>\<open>errorResponse\<close>, so the payload is read from a body that is closed already: it is what the
  closed body still yields, not what the server sent. For a body of \<^verbatim>\<open>net/http\<close> and status
  404 the payload is the error of the read on a closed body, whatever text \<open>body\<close> the
  response held; \<^verbatim>\<open>GetCodebook\<close>, which calls \<^verbatim>\<open>errorResponse\<close> before its deferred close runs, returns the
  text for the same response.
\<close>

theorem postQuery_closes_before_reading:
  "postQuery (answering (respond 404 body)) sample_query sample_data
     = ((None, Some (DpError ErrBodyReadAfterClose 404
                       [(''url'', LogString ''cantabular.ext.host/graphql'')])),
        Some (close_body (respond 404 body)))
   \<and> closed (Body (close_body (respond 404 body)))
   \<and> GetCodebook (answering (respond 404 body)) req dec z
     = ((None, Some (DpError (ErrorString body) 404 [])), Some (close_body (respond 404 body)))"
proof -
  obtain b where b: "Encode sample_data sample_query = Inr b"
    using Encode_Inr by blast
  have p: "postQuery (answering (respond 404 body)) sample_query sample_data
     = ((None, Some (DpError ErrBodyReadAfterClose 404
                       [(''url'', LogString ''cantabular.ext.host/graphql'')])),
        Some (close_body (respond 404 body)))"
    using b
    by (simp add: postQuery_def Let_def closeResponseBody_def errorResponse_def
          ioutil_ReadAll_def close_body_def answering_def respond_def StatusOK_def)
  have c: "closed (Body (close_body (respond 404 body)))"
    by (simp add: close_body_def)
  have g: "GetCodebook (answering (respond 404 body)) req dec z
     = ((None, Some (DpError (ErrorString body) 404 [])), Some (close_body (respond 404 body)))"
    by (simp add: GetCodebook_def Let_def errorResponse_def ioutil_ReadAll_def answering_def
          respond_def StatusOK_def)
  from p c g show ?thesis by blast
qed

text \<open>
  C9. \<^verbatim>\<open>Stream\<close> returns nil exactly when transformer and consumer both return
  nil; when exactly one of them fails the result wraps that error (it is what
  \<^verbatim>\<open>errors.Unwrap\<close> gives back); when both fail the result is one error whose message
  is formatted from both, the transform error first.
\<close>

theorem Stream_error_combination:
  "(Stream et ec = None \<longleftrightarrow> et = None \<and> ec = None)
   \<and> Stream (Some e) None = Some (WrapError ''transform error: %w'' e)
   \<and> Stream None (Some e) = Some (WrapError ''consumer error: %w'' e)
   \<and> (\<exists>r. Stream (Some e) None = Some r \<and> Unwrap r = Some e)
   \<and> (\<exists>r. Stream None (Some e) = Some r \<and> Unwrap r = Some e)
   \<and> Stream (Some e1) (Some e2) =
       Some (FmtError ''transform error: %v, consumer error: %v'' [e1, e2])"
  by (auto simp: Stream_def)

text \<open>
  C10. When the codebook endpoint answers 200 with a body of zero bytes,
  \<^verbatim>\<open>GetCodebook\<close> puts the text \<^verbatim>\<open>[response body empty]\<close> in its place, which is not
  JSON, and returns no response together with the error of the failed unmarshalling,
  whatever the type of the response.
\<close>

theorem GetCodebook_empty_body:
  assumes "httpGet c (codebook_url c req) = Inr res"
    and "StatusCode res = StatusOK"
    and "ioutil_ReadAll (Body res) = ([], None)"
  shows "GetCodebook c req dec z =
           ((None,
             Some (DpError (FmtError ''failed to unmarshal response body: %s'' [SyntaxError])
                           StatusInternalServerError
                           [(''response_body'', LogString ''[response body empty]'')])),
            Some (close_body res))"
  using assms
  by (simp add: GetCodebook_def Let_def json_Unmarshal_def parse_placeholder)

theorem GetCodebook_empty_body_witness:
  "GetCodebook (answering (respond 200 ''''))
       \<lparr>DatasetName = ''Example'', ReqVariables = Some [''city'', ''sex''], Categories = True\<rparr>
       (decode gql DatasetVariables_t) (zero DatasetVariables_t) =
     ((None,
       Some (DpError (FmtError ''failed to unmarshal response body: %s'' [SyntaxError]) 500
                     [(''response_body'', LogString ''[response body empty]'')])),
      Some (close_body (respond 200 '''')))"
proof -
  let ?c = "answering (respond 200 '''')"
  let ?req = "\<lparr>DatasetName = ''Example'', ReqVariables = Some [''city'', ''sex''], Categories = True\<rparr>"
  have g: "httpGet ?c (codebook_url ?c ?req) = Inr (respond 200 '''')"
    by (simp add: answering_def)
  have s: "StatusCode (respond 200 '''') = StatusOK"
    by (simp add: respond_def StatusOK_def)
  have r: "ioutil_ReadAll (Body (respond 200 '''')) = ([], None)"
    by (simp add: respond_def ioutil_ReadAll_def)
  show ?thesis
    using GetCodebook_empty_body [OF g s r, of "decode gql DatasetVariables_t" "zero DatasetVariables_t"]
    by (simp add: StatusInternalServerError_def)
qed



text \<open>
  C8. When the request carries neither a Florence token nor a service auth token (both
  headers are absent or empty), \<^verbatim>\<open>CheckRequest\<close> returns the context of the request
  as it is, status 200 and no error, and sends no request to the auth API.
\<close>

theorem CheckRequest_no_tokens:
  assumes "Header_Get E (Header req) (FlorenceHeaderKey E) = ''''"
    and "Header_Get E (Header req) (AuthHeaderKey E) = ''''"
  shows "CheckRequest E api req = (Return (Some (Ctx req), StatusOK, None), [])"
  using assms by (simp add: CheckRequest_def Let_def)

theorem CheckRequest_no_tokens_witness:
  "Header_Get sample_env (Header sample_request) (FlorenceHeaderKey sample_env) = ''''
   \<and> Header_Get sample_env (Header sample_request) (AuthHeaderKey sample_env) = ''''
   \<and> CheckRequest sample_env sample_identity sample_request
       = (Return (Some [(''request-id'', CtxString ''abc'')], 200, None), [])"
proof -
  have f: "Header_Get sample_env (Header sample_request) (FlorenceHeaderKey sample_env) = ''''"
    by (simp add: Header_Get_def sample_env_def sample_request_def)
  have a: "Header_Get sample_env (Header sample_request) (AuthHeaderKey sample_env) = ''''"
    by (simp add: Header_Get_def sample_env_def sample_request_def)
  show ?thesis
    using f a CheckRequest_no_tokens [OF f a, of sample_identity]
    by (simp add: sample_request_def StatusOK_def)
qed

text \<open>
  C2, as stated, does not hold: \<^verbatim>\<open>queryUnmarshal\<close> never looks into the payload. For
  a 200 response whose body is well-formed JSON with a top-level \<^verbatim>\<open>error\<close> member, it
  returns nil with the rest of the body decoded.
\<close>

theorem queryUnmarshal_error_field_counterexample:
  "json_parse error_body =
     Some (JObject [(''variables'', JObject [(''edges'', JArray [])]),
                    (''error'', JString ''dataset not found'')])
   \<and> queryUnmarshal (answering (respond 200 error_body)) sample_query sample_data
        (decode gql DatasetVariables_t) (zero DatasetVariables_t)
     = (Return (None,
          VStruct [(''Variables'',
            VStruct [(''Edges'', VSlice (Some [])),
                     (''Search'', VStruct [(''Edges'', VSlice None)]),
                     (''CategorySearch'', VStruct [(''Edges'', VSlice None)])])]),
        Some (close_body (respond 200 error_body)))"
  by code_simp

text \<open>
  C2, amended. For a 200 response whose body is a well-formed JSON object,
  \<^verbatim>\<open>queryUnmarshal\<close> into one of the graph types returns what decoding the body without
  its \<^verbatim>\<open>error\<close> members gives: nil and the decoded value when that succeeds, and
  otherwise the decoding error with status 500. An \<^verbatim>\<open>error\<close> member is never a reason
  to fail; it is left to the caller. The body is closed in both cases.
\<close>

theorem queryUnmarshal_ignores_error_member:
  assumes "ty \<in> set gql_types"
    and "Encode data query = Inr p"
    and "httpPost c (extApiHost c @ ''/graphql'') ''application/json'' p = Inr res"
    and "StatusCode res = StatusOK"
    and "ioutil_ReadAll (Body res) = (b, None)"
    and "json_parse b = Some (JObject ms)"
  shows "queryUnmarshal c query data (decode gql ty) v =
     (case decode gql ty (JObject (filter (\<lambda>m. fst m \<noteq> ''error'') ms)) v of
        (v', None) \<Rightarrow> (Return (None, v'), Some (close_body res))
      | (v', Some err) \<Rightarrow>
          (Return (Some (DpError (FmtError ''failed to unmarshal response body: %s'' [err])
                           StatusInternalServerError
                           [(''url'', LogString (extApiHost c @ ''/graphql'')),
                            (''response_body'', LogString b)]), v'),
           Some (close_body res)))"
proof -
  from assms(1) obtain fs where ty: "ty = GoStruct fs" and nf: "find_field fs ''error'' = None"
    using gql_types_struct by blast
  have "decode gql ty (JObject (filter (\<lambda>m. fst m \<noteq> ''error'') ms)) v = decode gql ty (JObject ms) v"
    using ty decode_members_skip [OF nf] by simp
  then show ?thesis
    using assms(2-6)
    by (simp add: queryUnmarshal_def postQuery_def Let_def json_Unmarshal_def closeResponseBody_def
          split: prod.splits option.splits)
qed

theorem queryUnmarshal_ignores_error_member_witness:
  "DatasetVariables_t \<in> set gql_types
   \<and> StatusCode (respond 200 error_body) = StatusOK
   \<and> ioutil_ReadAll (Body (respond 200 error_body)) = (error_body, None)
   \<and> json_parse error_body =
       Some (JObject [(''variables'', JObject [(''edges'', JArray [])]),
                      (''error'', JString ''dataset not found'')])
   \<and> queryUnmarshal (answering (respond 200 error_body)) sample_query sample_data
        (decode gql DatasetVariables_t) (zero DatasetVariables_t)
     = (Return (None, fst (decode gql DatasetVariables_t
                  (JObject [(''variables'', JObject [(''edges'', JArray [])])])
                  (zero DatasetVariables_t))),
        Some (close_body (respond 200 error_body)))"
proof -
  let ?c = "answering (respond 200 error_body)"
  have m: "DatasetVariables_t \<in> set gql_types"
    by (simp add: gql_types_def)
  obtain p where e: "Encode sample_data sample_query = Inr p"
    using Encode_Inr by blast
  have h: "httpPost ?c (extApiHost ?c @ ''/graphql'') ''application/json'' p = Inr (respond 200 error_body)"
    by (simp add: answering_def)
  have s: "StatusCode (respond 200 error_body) = StatusOK"
    by (simp add: respond_def StatusOK_def)
  have r: "ioutil_ReadAll (Body (respond 200 error_body)) = (error_body, None)"
    by (simp add: respond_def ioutil_ReadAll_def)
  have j: "json_parse error_body =
       Some (JObject [(''variables'', JObject [(''edges'', JArray [])]),
                      (''error'', JString ''dataset not found'')])"
    by code_simp
  have d: "snd (decode gql DatasetVariables_t
                  (JObject [(''variables'', JObject [(''edges'', JArray [])])])
                  (zero DatasetVariables_t)) = None"
    by code_simp
  show ?thesis
    using m s r j d queryUnmarshal_ignores_error_member [OF m e h s r j, of "zero DatasetVariables_t"]
    by (simp split: prod.splits)
qed

text \<open>
  C5. The dataset list is the list of the names \<^verbatim>\<open>edges[].node.name\<close> under
  \<^verbatim>\<open>variables\<close>, one for each edge and in the order of the edges; for the sample
  response with the datasets \<^verbatim>\<open>dataset 1\<close> and \<^verbatim>\<open>dataset 2\<close> it is exactly these two
  names in this order.
\<close>

theorem ListDatasets_names_in_order:
  "ListDatasets (Inr response) =
     (Some (map (\<lambda>edge. string_of (sel ''Name'' (sel ''Node'' edge)))
                (elems (slice_of (sel ''Edges'' (sel ''Variables'' response))))), None)
   \<and> (case json_Unmarshal (decode gql DatasetVariables_t) dataset_list_body (zero DatasetVariables_t) of
        (decoded, err) \<Rightarrow>
          err = None \<and> ListDatasets (Inr decoded) = (Some [''dataset 1'', ''dataset 2''], None))"
proof -
  have "case json_Unmarshal (decode gql DatasetVariables_t) dataset_list_body (zero DatasetVariables_t) of
        (decoded, err) \<Rightarrow>
          err = None \<and> ListDatasets (Inr decoded) = (Some [''dataset 1'', ''dataset 2''], None)"
    by code_simp
  then show ?thesis
    by (simp add: ListDatasets_def collect_names_map)
qed




text \<open>
  C7, as stated, does not hold: not every entry ends up enriched. A unit whose
  \<^verbatim>\<open>GetPageTitle\<close> fails drops the error and still writes \<^verbatim>\<open>t.Title\<close>, the title of the zero
  \<^verbatim>\<open>PageTitle\<close>. Here the page has the entries \<^verbatim>\<open>/a\<close> with title \<^verbatim>\<open>A\<close> and \<^verbatim>\<open>/b\<close> with title \<^verbatim>\<open>B\<close>;
  the title of \<^verbatim>\<open>/a\<close> is fetched and that of \<^verbatim>\<open>/b\<close> is answered with status 404. The call
  returns no error, the first entry has the fetched title, and the second one has lost
  its title.
\<close>

theorem GetDatasetLandingPage_blank_title_counterexample:
  "GetDatasetLandingPage sample_env sample_types (one_title_zebedee (respond 200 related_body))
       [] ''token'' ''/datasets/x''
     = (VStruct [(''RelatedDatasets'',
                  VSlice (Some [VStruct [(''Title'', VString ''Alpha''), (''URI'', VString ''/a'')],
                                VStruct [(''Title'', VString ''''), (''URI'', VString ''/b'')]])),
                 (''RelatedDocuments'', VSlice None),
                 (''RelatedMethodology'', VSlice None),
                 (''RelatedMethodologyArticle'', VSlice None)],
        None)
   \<and> json_Unmarshal (decode (zebedee_decls sample_types) (DatasetLandingPage_t sample_types))
        related_body (zero (DatasetLandingPage_t sample_types))
     = (VStruct [(''RelatedDatasets'',
                  VSlice (Some [VStruct [(''Title'', VString ''A''), (''URI'', VString ''/a'')],
                                VStruct [(''Title'', VString ''B''), (''URI'', VString ''/b'')]])),
                 (''RelatedDocuments'', VSlice None),
                 (''RelatedMethodology'', VSlice None),
                 (''RelatedMethodologyArticle'', VSlice None)],
        None)
   \<and> GetPageTitle sample_env sample_types (one_title_zebedee (respond 200 related_body))
        [] ''token'' ''/a''
     = (VStruct [(''Title'', VString ''Alpha'')], None)
   \<and> fst (GetPageTitle sample_env sample_types (one_title_zebedee (respond 200 related_body))
        [] ''token'' ''/b'')
     = VStruct [(''Title'', VString '''')]
   \<and> (case snd (GetPageTitle sample_env sample_types (one_title_zebedee (respond 200 related_body))
                  [] ''token'' ''/b'') of
         Some (ErrInvalidZebedeeResponse status p) \<Rightarrow> status = 404
       | _ \<Rightarrow> False)"
  by code_simp

text \<open>
  C7, amended. When the page has been fetched and unmarshalled, into \<open>dlp\<close>, with any
  number of entries, \<^verbatim>\<open>GetDatasetLandingPage\<close> returns the page and no error, and in the page
  every entry of the four lists is the entry of \<open>dlp\<close> with its title overwritten by the
  title that \<^verbatim>\<open>GetPageTitle\<close> gave for its URI, whatever happened to the other entries; the
  lists keep their lengths. In every state that the loop and its units can reach, in any
  order of their steps: at most 10 units are in flight (they are at most the values in the
  channel, which are at most 10); some step can be taken unless the call has returned, and
  every step brings the return nearer, so that every schedule ends with the return; and
  once \<^verbatim>\<open>wg.Wait()\<close> has returned, every unit has finished and has written the title that
  the returned page shows. A unit is not enriched when its request fails: then
  \<^verbatim>\<open>GetPageTitle\<close> gives the zero \<^verbatim>\<open>PageTitle\<close>, and its empty title is what the unit writes.
\<close>

theorem fan_out_enrichment:
  assumes "get E c ctx tok (createRequestURL E ctx ''/data'' (''uri='' @ path)) = (b, h, None)"
    and "json_Unmarshal (decode (zebedee_decls T) (DatasetLandingPage_t T)) (bytes_of b)
           (zero (DatasetLandingPage_t T)) = (dlp, None)"
  shows "\<exists>page. GetDatasetLandingPage E T c ctx tok path = (page, None)
      \<and> (\<forall>n\<in>set related_fields.
            length (related_of page n) = length (related_of dlp n)
          \<and> (\<forall>i<length (related_of dlp n).
                related_of page n ! i
                  = assign (related_of dlp n ! i) ''Title'' (unit_title E T c ctx tok dlp (n, i))))
      \<and> (\<forall>s. (fan_step (unit_title E T c ctx tok dlp))\<^sup>*\<^sup>* (fan_init (units_of dlp)) s \<longrightarrow>
            in_flight s \<le> sem s \<and> sem s \<le> 10
          \<and> (\<not> returned s \<longrightarrow> (\<exists>s'. fan_step (unit_title E T c ctx tok dlp) s s'))
          \<and> (\<forall>s'. fan_step (unit_title E T c ctx tok dlp) s s' \<longrightarrow> fan_rank s' < fan_rank s)
          \<and> (\<exists>s'. (fan_step (unit_title E T c ctx tok dlp))\<^sup>*\<^sup>* s s' \<and> returned s')
          \<and> (returned s \<longrightarrow>
                mset (finished s) = mset (units_of dlp)
              \<and> (\<forall>n\<in>set related_fields. \<forall>i<length (related_of dlp n).
                    titles s (n, i) = Some (sel ''Title'' (related_of page n ! i)))))
      \<and> (\<forall>uri b' h' err.
            get E c ctx tok (createRequestURL E ctx ''/data'' (''uri='' @ uri @ ''&title''))
              = (b', h', Some err)
            \<longrightarrow> GetPageTitle E T c ctx tok uri = (zero (PageTitle_t T), Some err))"
proof -
  let ?page = "fold (resolve_related E T c ctx tok) related_fields dlp"
  let ?w = "unit_title E T c ctx tok dlp"
  have p: "GetDatasetLandingPage E T c ctx tok path = (?page, None)"
    using assms by (simp add: GetDatasetLandingPage_def Let_def)
  have d: "distinct related_fields"
    by (simp add: related_fields_def)
  have r: "related_of ?page n = map (resolve_title E T c ctx tok) (related_of dlp n)"
    if "n \<in> set related_fields" for n
    using that related_of_fold [OF d] by simp
  have e: "related_of ?page n ! i = assign (related_of dlp n ! i) ''Title'' (?w (n, i))"
    if "n \<in> set related_fields" "i < length (related_of dlp n)" for n i
    using that r resolve_title_unit by simp
  have t: "sel ''Title'' (related_of ?page n ! i) = ?w (n, i)"
    if "n \<in> set related_fields" "i < length (related_of dlp n)" for n i
    using e [OF that] by (simp add: sel_assign)
  have f: "in_flight s \<le> sem s \<and> sem s \<le> 10
          \<and> (\<not> returned s \<longrightarrow> (\<exists>s'. fan_step ?w s s'))
          \<and> (\<forall>s'. fan_step ?w s s' \<longrightarrow> fan_rank s' < fan_rank s)
          \<and> (\<exists>s'. (fan_step ?w)\<^sup>*\<^sup>* s s' \<and> returned s')
          \<and> (returned s \<longrightarrow>
                mset (finished s) = mset (units_of dlp)
              \<and> (\<forall>n\<in>set related_fields. \<forall>i<length (related_of dlp n).
                    titles s (n, i) = Some (sel ''Title'' (related_of ?page n ! i))))"
    if "(fan_step ?w)\<^sup>*\<^sup>* (fan_init (units_of dlp)) s" for s
  proof -
    from that have i: "fan_inv ?w (units_of dlp) s"
      by (rule fan_inv_reachable)
    then have 1: "in_flight s \<le> sem s \<and> sem s \<le> 10"
      by (simp add: fan_inv_def sem_capacity_def)
    have 2: "\<not> returned s \<longrightarrow> (\<exists>s'. fan_step ?w s s')"
      using fan_progress [OF i] by blast
    have 3: "\<forall>s'. fan_step ?w s s' \<longrightarrow> fan_rank s' < fan_rank s"
      using fan_rank_step by blast
    have 4: "\<exists>s'. (fan_step ?w)\<^sup>*\<^sup>* s s' \<and> returned s'"
      using fan_completes [OF i] .
    have 5: "mset (finished s) = mset (units_of dlp)
              \<and> (\<forall>n\<in>set related_fields. \<forall>i<length (related_of dlp n).
                    titles s (n, i) = Some (sel ''Title'' (related_of ?page n ! i)))"
      if "returned s"
    proof -
      from fan_returned [OF i that]
      have m: "mset (finished s) = mset (units_of dlp)"
        and w: "\<forall>u\<in>set (units_of dlp). titles s u = Some (?w u)"
        by blast+
      have "titles s (n, i) = Some (sel ''Title'' (related_of ?page n ! i))"
        if "n \<in> set related_fields" "i < length (related_of dlp n)" for n i
        using that w t units_of_iff by metis
      with m show ?thesis by blast
    qed
    from 1 2 3 4 5 show ?thesis by blast
  qed
  have g: "GetPageTitle E T c ctx tok uri = (zero (PageTitle_t T), Some err)"
    if "get E c ctx tok (createRequestURL E ctx ''/data'' (''uri='' @ uri @ ''&title''))
          = (b', h', Some err)" for uri b' h' err
    using that by (rule GetPageTitle_failed_request)
  have l: "length (related_of ?page n) = length (related_of dlp n)"
    if "n \<in> set related_fields" for n
    using r [OF that] by simp
  show ?thesis
    apply (rule exI [of _ ?page])
    using p l e f g by blast
qed

theorem fan_out_enrichment_witness:
  "\<exists>b h dlp page.
      get sample_env (one_title_zebedee (respond 200 related_body)) [] ''token''
          (createRequestURL sample_env [] ''/data'' (''uri='' @ ''/datasets/x'')) = (b, h, None)
    \<and> json_Unmarshal (decode (zebedee_decls sample_types) (DatasetLandingPage_t sample_types))
          (bytes_of b) (zero (DatasetLandingPage_t sample_types)) = (dlp, None)
    \<and> units_of dlp = [(''RelatedDatasets'', 0), (''RelatedDatasets'', 1)]
    \<and> GetDatasetLandingPage sample_env sample_types (one_title_zebedee (respond 200 related_body))
          [] ''token'' ''/datasets/x'' = (page, None)
    \<and> related_of page ''RelatedDatasets'' ! 0
        = assign (related_of dlp ''RelatedDatasets'' ! 0) ''Title'' (VString ''Alpha'')
    \<and> related_of page ''RelatedDatasets'' ! 1
        = assign (related_of dlp ''RelatedDatasets'' ! 1) ''Title'' (VString '''')
    \<and> in_flight (fan_init (units_of dlp) :: (string \<times> nat, goval) fan)
        \<le> sem (fan_init (units_of dlp) :: (string \<times> nat, goval) fan)
    \<and> sem (fan_init (units_of dlp) :: (string \<times> nat, goval) fan) \<le> 10
    \<and> (\<exists>s. (fan_step (unit_title sample_env sample_types
                          (one_title_zebedee (respond 200 related_body)) [] ''token'' dlp))\<^sup>*\<^sup>*
               (fan_init (units_of dlp)) s
           \<and> returned s
           \<and> mset (finished s) = mset (units_of dlp)
           \<and> titles s (''RelatedDatasets'', 0) = Some (VString ''Alpha'')
           \<and> titles s (''RelatedDatasets'', 1) = Some (VString ''''))
    \<and> fst (GetPageTitle sample_env sample_types (one_title_zebedee (respond 200 related_body))
              [] ''token'' ''/b'') = zero (PageTitle_t sample_types)"
proof -
  let ?z = "one_title_zebedee (respond 200 related_body)"
  let ?dlp = "VStruct [(''RelatedDatasets'',
                  VSlice (Some [VStruct [(''Title'', VString ''A''), (''URI'', VString ''/a'')],
                                VStruct [(''Title'', VString ''B''), (''URI'', VString ''/b'')]])),
                 (''RelatedDocuments'', VSlice None),
                 (''RelatedMethodology'', VSlice None),
                 (''RelatedMethodologyArticle'', VSlice None)]"
  let ?w = "unit_title sample_env sample_types ?z [] ''token'' ?dlp"
  let ?i = "fan_init (units_of ?dlp) :: (string \<times> nat, goval) fan"
  have g: "get sample_env ?z [] ''token''
          (createRequestURL sample_env [] ''/data'' (''uri='' @ ''/datasets/x''))
        = (Some related_body, Some [], None)"
    by code_simp
  have u: "json_Unmarshal (decode (zebedee_decls sample_types) (DatasetLandingPage_t sample_types))
          (bytes_of (Some related_body)) (zero (DatasetLandingPage_t sample_types)) = (?dlp, None)"
    by code_simp
  have us: "units_of ?dlp = [(''RelatedDatasets'', 0), (''RelatedDatasets'', 1)]"
    by code_simp
  have rf: "''RelatedDatasets'' \<in> set related_fields"
    by (simp add: related_fields_def)
  have len: "length (related_of ?dlp ''RelatedDatasets'') = 2"
    by code_simp
  have w0: "?w (''RelatedDatasets'', 0) = VString ''Alpha''"
    by code_simp
  have w1: "?w (''RelatedDatasets'', 1) = VString ''''"
    by code_simp
  have b: "fst (GetPageTitle sample_env sample_types ?z [] ''token'' ''/b'')
             = zero (PageTitle_t sample_types)"
    by code_simp
  from fan_out_enrichment [OF g u]
  obtain page where p: "GetDatasetLandingPage sample_env sample_types ?z [] ''token'' ''/datasets/x''
        = (page, None)"
    and e: "\<forall>n\<in>set related_fields.
            length (related_of page n) = length (related_of ?dlp n)
          \<and> (\<forall>i<length (related_of ?dlp n).
                related_of page n ! i = assign (related_of ?dlp n ! i) ''Title'' (?w (n, i)))"
    and f: "\<forall>s. (fan_step ?w)\<^sup>*\<^sup>* ?i s \<longrightarrow>
            in_flight s \<le> sem s \<and> sem s \<le> 10
          \<and> (\<not> returned s \<longrightarrow> (\<exists>s'. fan_step ?w s s'))
          \<and> (\<forall>s'. fan_step ?w s s' \<longrightarrow> fan_rank s' < fan_rank s)
          \<and> (\<exists>s'. (fan_step ?w)\<^sup>*\<^sup>* s s' \<and> returned s')
          \<and> (returned s \<longrightarrow>
                mset (finished s) = mset (units_of ?dlp)
              \<and> (\<forall>n\<in>set related_fields. \<forall>i<length (related_of ?dlp n).
                    titles s (n, i) = Some (sel ''Title'' (related_of page n ! i))))"
    by blast
  from e rf len w0 have e0: "related_of page ''RelatedDatasets'' ! 0
        = assign (related_of ?dlp ''RelatedDatasets'' ! 0) ''Title'' (VString ''Alpha'')"
    by (metis zero_less_numeral)
  from e rf len w1 have e1: "related_of page ''RelatedDatasets'' ! 1
        = assign (related_of ?dlp ''RelatedDatasets'' ! 1) ''Title'' (VString '''')"
    by (metis one_less_numeral_iff semiring_norm(76))
  have i0: "(fan_step ?w)\<^sup>*\<^sup>* ?i ?i"
    by simp
  with f have c: "in_flight ?i \<le> sem ?i" "sem ?i \<le> 10"
    and "\<exists>s'. (fan_step ?w)\<^sup>*\<^sup>* ?i s' \<and> returned s'"
    by blast+
  then obtain s where s: "(fan_step ?w)\<^sup>*\<^sup>* ?i s" "returned s"
    by blast
  with f have m: "mset (finished s) = mset (units_of ?dlp)"
    and t: "\<forall>n\<in>set related_fields. \<forall>i<length (related_of ?dlp n).
                    titles s (n, i) = Some (sel ''Title'' (related_of page n ! i))"
    by blast+
  from t rf len have "titles s (''RelatedDatasets'', 0)
       = Some (sel ''Title'' (related_of page ''RelatedDatasets'' ! 0))"
    by (metis zero_less_numeral)
  with e0 have t0: "titles s (''RelatedDatasets'', 0) = Some (VString ''Alpha'')"
    by (simp add: sel_assign)
  from t rf len have "titles s (''RelatedDatasets'', 1)
       = Some (sel ''Title'' (related_of page ''RelatedDatasets'' ! 1))"
    by (metis one_less_numeral_iff semiring_norm(76))
  with e1 have t1: "titles s (''RelatedDatasets'', 1) = Some (VString '''')"
    by (simp add: sel_assign)
  from s m t0 t1 have r: "\<exists>s. (fan_step ?w)\<^sup>*\<^sup>* ?i s \<and> returned s
           \<and> mset (finished s) = mset (units_of ?dlp)
           \<and> titles s (''RelatedDatasets'', 0) = Some (VString ''Alpha'')
           \<and> titles s (''RelatedDatasets'', 1) = Some (VString '''')"
    by blast
  show ?thesis
    apply (rule exI [of _ "Some related_body"])
    apply (rule exI [of _ "Some []"])
    apply (rule exI [of _ ?dlp])
    apply (rule exI [of _ page])
    using g u us p e0 e1 c r b by (intro conjI)
qed

end
